theory Spec2Isabelle
  imports Main "HOL-Library.Word"
begin

unbundle bit_operations_syntax

section \<open>Shared vocabulary of the two drawing tools\<close>

text \<open>
  The repository holds two Tkinter programs, \<^verbatim>\<open>grid_maker.py\<close> (an 8 x 8 grid of
  \<^verbatim>\<open>np.uint8\<close> cells, no label) and \<^verbatim>\<open>symbols_maker.py\<close> (a 5 x 5 grid of
  \<^verbatim>\<open>int\<close> cells, that is 64-bit integers, with a class label). Definitions taken from
  the first carry the prefix \<open>gm_\<close>, those from the second the prefix \<open>sm_\<close>.

  A NumPy matrix is a list of rows and a flat array is a list. \<^verbatim>\<open>flatten()\<close> and
  \<^verbatim>\<open>tolist()\<close> return fresh values, so a stored sample never changes with the
  grid. The shape of the grid is fixed when the program starts; the predicate \<open>shape\<close>
  below says so, and indexing outside the lists raises \<open>IndexError\<close> in the model.
  The canvas rectangles are written and never read by either program; they are not part
  of the model. Message boxes, the file dialog and the file system are effects: a handler
  returns the boxes it showed and the files it wrote, while the answer of the dialog (the
  empty string when the user cancels) and the fate of the write are parameters.
\<close>

datatype exn = IndexError | ValueError | OSError string

record event =
  ev_x :: int
  ev_y :: int

text \<open>The texts of the message boxes, one constructor for each call in the two sources.\<close>

datatype message =
    Drawing_Stored nat
  | Drawing_Empty
  | Nothing_To_Save
  | Drawings_Saved nat string
  | Could_Not_Save exn
  | PNG_Saved string
  | Canvas_Clean
  | Sample_Empty
  | Sample_Saved nat
  | No_Samples
  | Data_Saved string
  | Image_Saved string

datatype notification = ShowInfo message | ShowWarning message | ShowError message

datatype file_content = Text string | Raster "8 word list list"

record 'a outcome =
  app :: 'a
  shown :: "notification list"
  written :: "(string \<times> file_content) list"
  raised :: "exn option"

text \<open>
  A handler that opens the modal save dialog stops there with the state it has reached;
  the rest of the handler runs on the dialog's answer.
\<close>

datatype 'a step = Done "'a outcome" | Ask_Save_As 'a

definition quiet :: "'a \<Rightarrow> 'a outcome" where
  "quiet s = \<lparr>app = s, shown = [], written = [], raised = None\<rparr>"

definition CELL_SIZE :: int where
  "CELL_SIZE = 50"

subsection \<open>NumPy and Pillow operations used by the programs\<close>

text \<open>
  \<open>getitem\<close> and \<open>setitem\<close> are \<^verbatim>\<open>a[r, c]\<close> read and written, for the indices that
  \<^verbatim>\<open>_coords_to_cell\<close> lets through (never negative). \<open>any1\<close> and \<open>any2\<close> are
  \<^verbatim>\<open>any()\<close> on a flat array and on a matrix, \<open>fill0\<close> is \<^verbatim>\<open>fill(0)\<close>.
  \<^verbatim>\<open>np.vstack\<close> raises \<^verbatim>\<open>ValueError\<close> on an empty list and on rows of different
  lengths, \<^verbatim>\<open>np.array(rows, dtype=int)\<close> on rows of different lengths. \<open>fmt_d\<close> is the
  format \<^verbatim>\<open>%d\<close>, and \<open>savetxt_text\<close> the text that \<^verbatim>\<open>np.savetxt\<close> writes with
  that format and the delimiter \<^verbatim>\<open>,\<close>: one line for each row, each ended by a newline.
\<close>

definition shape :: "nat \<Rightarrow> 'a list list \<Rightarrow> bool" where
  "shape n a \<longleftrightarrow> length a = n \<and> list_all (\<lambda>row. length row = n) a"

definition bits :: "'a::zero_neq_one list list \<Rightarrow> bool" where
  "bits a \<longleftrightarrow> list_all (list_all (\<lambda>v. v = 0 \<or> v = 1)) a"

definition getitem :: "'a list list \<Rightarrow> nat \<Rightarrow> nat \<Rightarrow> exn + 'a" where
  "getitem a r c =
     (if r < length a \<and> c < length (a ! r) then Inr (a ! r ! c) else Inl IndexError)"

definition setitem :: "'a list list \<Rightarrow> nat \<Rightarrow> nat \<Rightarrow> 'a \<Rightarrow> exn + 'a list list" where
  "setitem a r c v =
     (if r < length a \<and> c < length (a ! r) then Inr (a[r := (a ! r)[c := v]])
      else Inl IndexError)"

definition flatten :: "'a list list \<Rightarrow> 'a list" where
  "flatten a = concat a"

definition any1 :: "'a::zero list \<Rightarrow> bool" where
  "any1 xs = list_ex (\<lambda>v. v \<noteq> 0) xs"

definition any2 :: "'a::zero list list \<Rightarrow> bool" where
  "any2 a = list_ex any1 a"

definition fill0 :: "'a::zero list list \<Rightarrow> 'a list list" where
  "fill0 a = map (map (\<lambda>_. 0)) a"

definition ragged :: "'a list list \<Rightarrow> bool" where
  "ragged rows = (case rows of [] \<Rightarrow> False
                  | r # rs \<Rightarrow> list_ex (\<lambda>q. length q \<noteq> length r) rs)"

definition vstack :: "'a list list \<Rightarrow> exn + 'a list list" where
  "vstack rows = (if rows = [] \<or> ragged rows then Inl ValueError else Inr rows)"

definition np_array :: "int list list \<Rightarrow> exn + int list list" where
  "np_array rows = (if ragged rows then Inl ValueError else Inr rows)"

fun str_nat :: "nat \<Rightarrow> string" where
  "str_nat n =
     (if n < 10 then [''0123456789'' ! n]
      else str_nat (n div 10) @ [''0123456789'' ! (n mod 10)])"

declare str_nat.simps [simp del]

definition fmt_d :: "int \<Rightarrow> string" where
  "fmt_d i = (if i < 0 then CHR ''-'' # str_nat (nat (- i)) else str_nat (nat i))"

fun join :: "string \<Rightarrow> string list \<Rightarrow> string" where
  "join sep [] = []"
| "join sep [w] = w"
| "join sep (w # ws) = w @ sep @ join sep ws"

definition csv_line :: "int list \<Rightarrow> string" where
  "csv_line row = join '','' (map fmt_d row)"

definition savetxt_text :: "int list list \<Rightarrow> string" where
  "savetxt_text mat = concat (map (\<lambda>row. csv_line row @ [CHR 0x0A]) mat)"

text \<open>
  Writing a file either succeeds or raises; \<open>io\<close> is what the operating system does to
  this write.
\<close>

definition write_file :: "exn option \<Rightarrow> string \<Rightarrow> file_content \<Rightarrow> exn + (string \<times> file_content)" where
  "write_file io fname content = (case io of Some e \<Rightarrow> Inl e | None \<Rightarrow> Inr (fname, content))"

definition img_width :: "'a list list \<Rightarrow> nat" where
  "img_width img = (case img of [] \<Rightarrow> 0 | row # _ \<Rightarrow> length row)"

text \<open>
  Pillow's nearest-neighbour resize reads, for the output pixel \<open>x\<close>, the source pixel
  under its centre: the integer part of \<open>(x + 1/2) * sw / w\<close>.
\<close>

definition resize_nearest :: "nat \<Rightarrow> nat \<Rightarrow> 'a list list \<Rightarrow> 'a list list" where
  "resize_nearest w h img =
     map (\<lambda>y. map (\<lambda>x. img ! (((2 * y + 1) * length img) div (2 * h))
                          ! (((2 * x + 1) * img_width img) div (2 * w))) [0..<w]) [0..<h]"

section \<open>grid\_maker.py\<close>

definition gm_GRID_SIZE :: int where
  "gm_GRID_SIZE = 8"

record gm_app =
  gm_state :: "8 word list list"
  gm_samples :: "8 word list list"

definition gm_init :: gm_app where
  "gm_init = \<lparr>gm_state = replicate (nat gm_GRID_SIZE) (replicate (nat gm_GRID_SIZE) 0),
              gm_samples = []\<rparr>"

definition gm_coords_to_cell :: "event \<Rightarrow> (nat \<times> nat) option" where
  "gm_coords_to_cell e =
     (let col = ev_x e div CELL_SIZE; row = ev_y e div CELL_SIZE
      in if 0 \<le> row \<and> row < gm_GRID_SIZE \<and> 0 \<le> col \<and> col < gm_GRID_SIZE
         then Some (nat row, nat col) else None)"

definition gm_toggle_cell :: "event \<Rightarrow> gm_app \<Rightarrow> exn + gm_app" where
  "gm_toggle_cell e s =
     (case gm_coords_to_cell e of
        None \<Rightarrow> Inr s
      | Some (r, c) \<Rightarrow>
          (case getitem (gm_state s) r c of
             Inl err \<Rightarrow> Inl err
           | Inr v \<Rightarrow>
               (case setitem (gm_state s) r c (v XOR 1) of
                  Inl err \<Rightarrow> Inl err
                | Inr a \<Rightarrow> Inr (s\<lparr>gm_state := a\<rparr>))))"

definition gm_paint_motion :: "event \<Rightarrow> gm_app \<Rightarrow> exn + gm_app" where
  "gm_paint_motion e s =
     (case gm_coords_to_cell e of
        None \<Rightarrow> Inr s
      | Some (r, c) \<Rightarrow>
          (case getitem (gm_state s) r c of
             Inl err \<Rightarrow> Inl err
           | Inr v \<Rightarrow>
               if v = 0 then
                 (case setitem (gm_state s) r c 1 of
                    Inl err \<Rightarrow> Inl err
                  | Inr a \<Rightarrow> Inr (s\<lparr>gm_state := a\<rparr>))
               else Inr s))"

definition gm_erase_cell :: "event \<Rightarrow> gm_app \<Rightarrow> exn + gm_app" where
  "gm_erase_cell e s =
     (case gm_coords_to_cell e of
        None \<Rightarrow> Inr s
      | Some (r, c) \<Rightarrow>
          (case getitem (gm_state s) r c of
             Inl err \<Rightarrow> Inl err
           | Inr v \<Rightarrow>
               if v \<noteq> 0 then
                 (case setitem (gm_state s) r c 0 of
                    Inl err \<Rightarrow> Inl err
                  | Inr a \<Rightarrow> Inr (s\<lparr>gm_state := a\<rparr>))
               else Inr s))"

definition gm_erase_motion :: "event \<Rightarrow> gm_app \<Rightarrow> exn + gm_app" where
  "gm_erase_motion e s = gm_erase_cell e s"

definition gm_reset :: "bool \<Rightarrow> gm_app \<Rightarrow> gm_app outcome" where
  "gm_reset update_msg s =
     \<lparr>app = s\<lparr>gm_state := fill0 (gm_state s)\<rparr>,
      shown = (if update_msg then [ShowInfo Canvas_Clean] else []),
      written = [], raised = None\<rparr>"

definition gm_next :: "gm_app \<Rightarrow> gm_app outcome" where
  "gm_next s =
     (let flat = flatten (gm_state s)
      in if any1 flat then
           let r = gm_reset False (s\<lparr>gm_samples := gm_samples s @ [flat]\<rparr>)
           in r\<lparr>shown := shown r @ [ShowInfo (Drawing_Stored (length (gm_samples (app r))))]\<rparr>
         else (quiet s)\<lparr>shown := [ShowWarning Drawing_Empty]\<rparr>)"

definition gm_save_all_prepare :: "gm_app \<Rightarrow> gm_app step" where
  "gm_save_all_prepare s =
     (if gm_samples s = [] \<and> \<not> any2 (gm_state s)
      then Done ((quiet s)\<lparr>shown := [ShowWarning Nothing_To_Save]\<rparr>)
      else Ask_Save_As
             (if any2 (gm_state s)
              then s\<lparr>gm_samples := gm_samples s @ [flatten (gm_state s)]\<rparr> else s))"

definition gm_save_all_write :: "string \<Rightarrow> exn option \<Rightarrow> gm_app \<Rightarrow> gm_app outcome" where
  "gm_save_all_write fname io s =
     (if fname = [] then quiet s
      else
        (case vstack (gm_samples s) of
           Inl exc \<Rightarrow> (quiet s)\<lparr>shown := [ShowError (Could_Not_Save exc)]\<rparr>
         | Inr mat \<Rightarrow>
             (case write_file io fname (Text (savetxt_text (map (map uint) mat))) of
                Inl exc \<Rightarrow> (quiet s)\<lparr>shown := [ShowError (Could_Not_Save exc)]\<rparr>
              | Inr f \<Rightarrow>
                  \<lparr>app = s\<lparr>gm_samples := []\<rparr>,
                   shown = [ShowInfo (Drawings_Saved (length (gm_samples s)) fname)],
                   written = [f], raised = None\<rparr>)))"

definition gm_save_all :: "string \<Rightarrow> exn option \<Rightarrow> gm_app \<Rightarrow> gm_app outcome" where
  "gm_save_all fname io s =
     (case gm_save_all_prepare s of
        Done r \<Rightarrow> r
      | Ask_Save_As s' \<Rightarrow> gm_save_all_write fname io s')"

definition gm_save_png_current :: "string \<Rightarrow> exn option \<Rightarrow> gm_app \<Rightarrow> gm_app outcome" where
  "gm_save_png_current fname io s =
     (if fname = [] then quiet s
      else
        (case write_file io fname (Raster (map (map (\<lambda>v. 255 * (1 - v))) (gm_state s))) of
           Inl exc \<Rightarrow> (quiet s)\<lparr>shown := [ShowError (Could_Not_Save exc)]\<rparr>
         | Inr f \<Rightarrow> (quiet s)\<lparr>shown := [ShowInfo (PNG_Saved fname)], written := [f]\<rparr>))"

section \<open>symbols\_maker.py\<close>

definition sm_GRID_SIZE :: int where
  "sm_GRID_SIZE = 5"

record sm_app =
  sm_state :: "64 word list list"
  sm_samples :: "int list list"
  sm_shape_var :: int

definition sm_init :: sm_app where
  "sm_init = \<lparr>sm_state = replicate (nat sm_GRID_SIZE) (replicate (nat sm_GRID_SIZE) 0),
              sm_samples = [], sm_shape_var = 0\<rparr>"

definition sm_coords_to_cell :: "event \<Rightarrow> (nat \<times> nat) option" where
  "sm_coords_to_cell e =
     (let col = ev_x e div CELL_SIZE; row = ev_y e div CELL_SIZE
      in if 0 \<le> row \<and> row < sm_GRID_SIZE \<and> 0 \<le> col \<and> col < sm_GRID_SIZE
         then Some (nat row, nat col) else None)"

definition sm_toggle_cell :: "event \<Rightarrow> sm_app \<Rightarrow> exn + sm_app" where
  "sm_toggle_cell e s =
     (case sm_coords_to_cell e of
        None \<Rightarrow> Inr s
      | Some (r, c) \<Rightarrow>
          (case getitem (sm_state s) r c of
             Inl err \<Rightarrow> Inl err
           | Inr v \<Rightarrow>
               (case setitem (sm_state s) r c (1 - v) of
                  Inl err \<Rightarrow> Inl err
                | Inr a \<Rightarrow> Inr (s\<lparr>sm_state := a\<rparr>))))"

definition sm_paint_motion :: "event \<Rightarrow> sm_app \<Rightarrow> exn + sm_app" where
  "sm_paint_motion e s =
     (case sm_coords_to_cell e of
        None \<Rightarrow> Inr s
      | Some (r, c) \<Rightarrow>
          (case setitem (sm_state s) r c 1 of
             Inl err \<Rightarrow> Inl err
           | Inr a \<Rightarrow> Inr (s\<lparr>sm_state := a\<rparr>)))"

definition sm_erase_cell :: "event \<Rightarrow> sm_app \<Rightarrow> exn + sm_app" where
  "sm_erase_cell e s =
     (case sm_coords_to_cell e of
        None \<Rightarrow> Inr s
      | Some (r, c) \<Rightarrow>
          (case setitem (sm_state s) r c 0 of
             Inl err \<Rightarrow> Inl err
           | Inr a \<Rightarrow> Inr (s\<lparr>sm_state := a\<rparr>)))"

definition sm_erase_motion :: "event \<Rightarrow> sm_app \<Rightarrow> exn + sm_app" where
  "sm_erase_motion e s =
     (case sm_coords_to_cell e of
        None \<Rightarrow> Inr s
      | Some (r, c) \<Rightarrow>
          (case setitem (sm_state s) r c 0 of
             Inl err \<Rightarrow> Inl err
           | Inr a \<Rightarrow> Inr (s\<lparr>sm_state := a\<rparr>)))"

definition sm_reset :: "sm_app \<Rightarrow> sm_app outcome" where
  "sm_reset s = quiet (s\<lparr>sm_state := fill0 (sm_state s), sm_shape_var := 0\<rparr>)"

definition sm_next :: "sm_app \<Rightarrow> sm_app outcome" where
  "sm_next s =
     (if \<not> any2 (sm_state s) then (quiet s)\<lparr>shown := [ShowWarning Sample_Empty]\<rparr>
      else
        let vec = map sint (flatten (sm_state s));
            vec = vec @ [sm_shape_var s];
            s1 = s\<lparr>sm_samples := sm_samples s @ [vec]\<rparr>;
            r = sm_reset s1
        in r\<lparr>shown := ShowInfo (Sample_Saved (length (sm_samples s1))) # shown r\<rparr>)"

definition sm_save_all_prepare :: "sm_app \<Rightarrow> sm_app step" where
  "sm_save_all_prepare s =
     (let s1 = (if any2 (sm_state s) then
                  let vec = map sint (flatten (sm_state s));
                      vec = vec @ [sm_shape_var s]
                  in s\<lparr>sm_samples := sm_samples s @ [vec]\<rparr>
                else s)
      in if sm_samples s1 = [] then Done ((quiet s1)\<lparr>shown := [ShowWarning No_Samples]\<rparr>)
         else Ask_Save_As s1)"

definition sm_save_all_write :: "string \<Rightarrow> exn option \<Rightarrow> sm_app \<Rightarrow> sm_app outcome" where
  "sm_save_all_write path io s =
     (if path \<noteq> [] then
        (case np_array (sm_samples s) of
           Inl exc \<Rightarrow> (quiet s)\<lparr>raised := Some exc\<rparr>
         | Inr mat \<Rightarrow>
             (case write_file io path (Text (savetxt_text mat)) of
                Inl exc \<Rightarrow> (quiet s)\<lparr>raised := Some exc\<rparr>
              | Inr f \<Rightarrow> (quiet s)\<lparr>shown := [ShowInfo (Data_Saved path)], written := [f]\<rparr>))
      else quiet s)"

definition sm_save_all :: "string \<Rightarrow> exn option \<Rightarrow> sm_app \<Rightarrow> sm_app outcome" where
  "sm_save_all path io s =
     (case sm_save_all_prepare s of
        Done r \<Rightarrow> r
      | Ask_Save_As s' \<Rightarrow> sm_save_all_write path io s')"

definition sm_save_png_current :: "string \<Rightarrow> exn option \<Rightarrow> sm_app \<Rightarrow> sm_app outcome" where
  "sm_save_png_current path io s =
     (if \<not> any2 (sm_state s) then (quiet s)\<lparr>shown := [ShowWarning Sample_Empty]\<rparr>
      else
        let img = resize_nearest (nat (sm_GRID_SIZE * CELL_SIZE)) (nat (sm_GRID_SIZE * CELL_SIZE))
                    (map (map (\<lambda>v. (ucast (v * 255) :: 8 word))) (sm_state s))
        in if path \<noteq> [] then
             (case write_file io path (Raster img) of
                Inl exc \<Rightarrow> (quiet s)\<lparr>raised := Some exc\<rparr>
              | Inr f \<Rightarrow> (quiet s)\<lparr>shown := [ShowInfo (Image_Saved path)], written := [f]\<rparr>)
           else quiet s)"

section \<open>Sessions\<close>

text \<open>
  Tk's main loop calls one handler after the other, as bound in \<^verbatim>\<open>_build_widgets\<close>:
  the four pointer events and the buttons (in the 5 x 5 tool also the two radio buttons
  of the label). A handler that raises leaves the state as it is at that point. A session
  is the list of the user's actions from the start of the program. Well-formed states
  have a grid of the program's shape with cells 0 or 1 and stored samples of the sample
  length (and a label 0 or 1).
\<close>

datatype gm_action =
    GM_Button_1 event
  | GM_B1_Motion event
  | GM_Button_3 event
  | GM_B3_Motion event
  | GM_Next
  | GM_Guardar string "exn option"
  | GM_PNG_actual string "exn option"
  | GM_Reiniciar

datatype sm_action =
    SM_Button_1 event
  | SM_B1_Motion event
  | SM_Button_3 event
  | SM_B3_Motion event
  | SM_Circle
  | SM_Cross
  | SM_Next
  | SM_Save_CSV string "exn option"
  | SM_Save_PNG string "exn option"
  | SM_Reset

definition returned :: "exn + 'a \<Rightarrow> 'a \<Rightarrow> 'a" where
  "returned r s = (case r of Inl _ \<Rightarrow> s | Inr s' \<Rightarrow> s')"

fun gm_dispatch :: "gm_action \<Rightarrow> gm_app \<Rightarrow> gm_app" where
  "gm_dispatch (GM_Button_1 e) s = returned (gm_toggle_cell e s) s"
| "gm_dispatch (GM_B1_Motion e) s = returned (gm_paint_motion e s) s"
| "gm_dispatch (GM_Button_3 e) s = returned (gm_erase_cell e s) s"
| "gm_dispatch (GM_B3_Motion e) s = returned (gm_erase_motion e s) s"
| "gm_dispatch GM_Next s = app (gm_next s)"
| "gm_dispatch (GM_Guardar fname io) s = app (gm_save_all fname io s)"
| "gm_dispatch (GM_PNG_actual fname io) s = app (gm_save_png_current fname io s)"
| "gm_dispatch GM_Reiniciar s = app (gm_reset True s)"

fun sm_dispatch :: "sm_action \<Rightarrow> sm_app \<Rightarrow> sm_app" where
  "sm_dispatch (SM_Button_1 e) s = returned (sm_toggle_cell e s) s"
| "sm_dispatch (SM_B1_Motion e) s = returned (sm_paint_motion e s) s"
| "sm_dispatch (SM_Button_3 e) s = returned (sm_erase_cell e s) s"
| "sm_dispatch (SM_B3_Motion e) s = returned (sm_erase_motion e s) s"
| "sm_dispatch SM_Circle s = s\<lparr>sm_shape_var := 0\<rparr>"
| "sm_dispatch SM_Cross s = s\<lparr>sm_shape_var := 1\<rparr>"
| "sm_dispatch SM_Next s = app (sm_next s)"
| "sm_dispatch (SM_Save_CSV path io) s = app (sm_save_all path io s)"
| "sm_dispatch (SM_Save_PNG path io) s = app (sm_save_png_current path io s)"
| "sm_dispatch SM_Reset s = app (sm_reset s)"

definition gm_session :: "gm_action list \<Rightarrow> gm_app" where
  "gm_session acts = foldl (\<lambda>s a. gm_dispatch a s) gm_init acts"

definition sm_session :: "sm_action list \<Rightarrow> sm_app" where
  "sm_session acts = foldl (\<lambda>s a. sm_dispatch a s) sm_init acts"

definition gm_wf :: "gm_app \<Rightarrow> bool" where
  "gm_wf s \<longleftrightarrow> shape 8 (gm_state s) \<and> bits (gm_state s)
            \<and> list_all (\<lambda>v. length v = 8 * 8) (gm_samples s)"

definition sm_wf :: "sm_app \<Rightarrow> bool" where
  "sm_wf s \<longleftrightarrow> shape 5 (sm_state s) \<and> bits (sm_state s)
            \<and> list_all (\<lambda>v. length v = 5 * 5 + 1) (sm_samples s)
            \<and> (sm_shape_var s = 0 \<or> sm_shape_var s = 1)"

section \<open>Two drawings used as examples\<close>

text \<open>
  The 8 x 8 grid with only cell (0, 0) set, and the 5 x 5 grid with only cell (4, 4) set
  and the label selector on 1 (cross).
\<close>

definition gm_example :: gm_app where
  "gm_example =
     \<lparr>gm_state = [[1, 0, 0, 0, 0, 0, 0, 0], [0, 0, 0, 0, 0, 0, 0, 0],
                  [0, 0, 0, 0, 0, 0, 0, 0], [0, 0, 0, 0, 0, 0, 0, 0],
                  [0, 0, 0, 0, 0, 0, 0, 0], [0, 0, 0, 0, 0, 0, 0, 0],
                  [0, 0, 0, 0, 0, 0, 0, 0], [0, 0, 0, 0, 0, 0, 0, 0]],
      gm_samples = []\<rparr>"

definition sm_example :: sm_app where
  "sm_example =
     \<lparr>sm_state = [[0, 0, 0, 0, 0], [0, 0, 0, 0, 0], [0, 0, 0, 0, 0], [0, 0, 0, 0, 0],
                  [0, 0, 0, 0, 1]],
      sm_samples = [], sm_shape_var = 1\<rparr>"

text \<open>The same two drawings with one sample, an all-black drawing, already stored.\<close>

definition gm_stored :: gm_app where
  "gm_stored = gm_example\<lparr>gm_samples := [replicate 64 1]\<rparr>"

definition sm_stored :: sm_app where
  "sm_stored = sm_example\<lparr>sm_samples := [replicate 25 1 @ [0]]\<rparr>"

section \<open>Matrices: shape, flattening, emptiness\<close>

lemma nth_concat_uniform:
  "list_all (\<lambda>row. length row = n) a \<Longrightarrow> r < length a \<Longrightarrow> c < n \<Longrightarrow>
   concat a ! (r * n + c) = a ! r ! c"
proof (induction a arbitrary: r)
  case Nil
  then show ?case by simp
next
  case (Cons row a)
  show ?case
  proof (cases r)
    case 0
    with Cons.prems show ?thesis by (simp add: nth_append)
  next
    case (Suc k)
    with Cons.prems have "concat a ! (k * n + c) = a ! k ! c"
      by (intro Cons.IH) simp_all
    with Suc Cons.prems show ?thesis by (simp add: nth_append)
  qed
qed

lemma length_concat_uniform:
  "list_all (\<lambda>row. length row = n) a \<Longrightarrow> length (concat a) = length a * n"
  by (induction a) simp_all

lemma flatten_nth:
  "shape n a \<Longrightarrow> r < n \<Longrightarrow> c < n \<Longrightarrow> flatten a ! (r * n + c) = a ! r ! c"
  by (simp add: shape_def flatten_def nth_concat_uniform)

lemma length_flatten: "shape n a \<Longrightarrow> length (flatten a) = n * n"
  by (auto simp: shape_def flatten_def length_concat_uniform)

lemma any1_flatten: "any1 (flatten a) = any2 a"
  by (induction a) (auto simp: any1_def any2_def flatten_def list_ex_iff)

lemma shape_fill0: "shape n (fill0 a) = shape n a"
  by (simp add: shape_def fill0_def list_all_iff)

lemma bits_fill0: "bits (fill0 a)"
  by (simp add: bits_def fill0_def list_all_iff)

lemma fill0_replicate: "shape n a \<Longrightarrow> fill0 a = replicate n (replicate n 0)"
  by (auto simp: shape_def fill0_def list_all_iff list_eq_iff_nth_eq map_replicate_const)

lemma not_any1_iff: "\<not> any1 xs \<longleftrightarrow> xs = replicate (length xs) 0"
  by (induction xs) (auto simp: any1_def)

lemma not_any2_uniform:
  "list_all (\<lambda>row. length row = n) a \<Longrightarrow>
   (\<not> any2 a) = (a = replicate (length a) (replicate n 0))"
proof (induction a)
  case Nil
  then show ?case by (simp add: any2_def)
next
  case (Cons row a)
  then show ?case using not_any1_iff [of row] by (auto simp: any2_def)
qed

lemma not_any2_iff: "shape n a \<Longrightarrow> (\<not> any2 a) = (a = replicate n (replicate n 0))"
  using not_any2_uniform [of n a] by (auto simp: shape_def)

lemma shape_row: "shape n a \<Longrightarrow> r < n \<Longrightarrow> length (a ! r) = n"
  by (simp add: shape_def list_all_length)

lemma bits_cell:
  "shape n a \<Longrightarrow> bits a \<Longrightarrow> r < n \<Longrightarrow> c < n \<Longrightarrow> a ! r ! c = 0 \<or> a ! r ! c = 1"
  by (simp add: bits_def shape_def list_all_length)

lemma getitem_shape: "shape n a \<Longrightarrow> r < n \<Longrightarrow> c < n \<Longrightarrow> getitem a r c = Inr (a ! r ! c)"
  by (simp add: getitem_def shape_row) (simp add: shape_def)

lemma setitem_shape:
  "shape n a \<Longrightarrow> r < n \<Longrightarrow> c < n \<Longrightarrow> setitem a r c v = Inr (a[r := (a ! r)[c := v]])"
  by (simp add: setitem_def shape_row) (simp add: shape_def)

lemma nth_update_any: "i < length xs \<Longrightarrow> xs[r := x] ! i = (if i = r then x else xs ! i)"
  by (cases "r < length xs") (auto simp: nth_list_update)

lemma nth_update_cell_gen:
  "i < length a \<Longrightarrow> j < length (a ! i) \<Longrightarrow>
   a[r := (a ! r)[c := v]] ! i ! j = (if i = r \<and> j = c then v else a ! i ! j)"
  by (auto simp: nth_update_any)

lemma length_update_cell_row:
  "i < length a \<Longrightarrow> length (a[r := (a ! r)[c := v]] ! i) = length (a ! i)"
  by (simp add: nth_update_any)

lemma shape_update: "shape n a \<Longrightarrow> shape n (a[r := (a ! r)[c := v]])"
  by (simp add: shape_def list_all_length length_update_cell_row)

lemma bits_update: "bits a \<Longrightarrow> v = 0 \<or> v = 1 \<Longrightarrow> bits (a[r := (a ! r)[c := v]])"
  unfolding bits_def list_all_length
  by (simp add: length_update_cell_row nth_update_cell_gen)

lemma nth_update_cell:
  "shape n a \<Longrightarrow> i < n \<Longrightarrow> j < n \<Longrightarrow>
   a[r := (a ! r)[c := v]] ! i ! j = (if i = r \<and> j = c then v else a ! i ! j)"
  by (rule nth_update_cell_gen) (simp_all add: shape_def list_all_length)

lemma update_cell_twice:
  "(a[r := (a ! r)[c := v]])[r := (a[r := (a ! r)[c := v]] ! r)[c := w]] = a[r := (a ! r)[c := w]]"
  by (cases "r < length a") (simp_all add: list_update_beyond)

lemma update_cell_same: "a ! r ! c = v \<Longrightarrow> a[r := (a ! r)[c := v]] = a"
  by auto

lemma shape_map_map: "shape n (map (map f) a) = shape n a"
  by (simp add: shape_def list_all_iff)

lemma nth_map_map:
  "shape n a \<Longrightarrow> r < n \<Longrightarrow> c < n \<Longrightarrow> map (map f) a ! r ! c = f (a ! r ! c)"
  by (simp add: shape_def list_all_length)

lemma not_ragged_uniform: "list_all (\<lambda>v. length v = n) rows \<Longrightarrow> \<not> ragged rows"
  by (cases rows) (auto simp: ragged_def list_all_iff list_ex_iff)

section \<open>The example drawings\<close>

lemma shape_gm_example: "shape 8 (gm_state gm_example)"
  by (simp add: shape_def gm_example_def)

lemma shape_sm_example: "shape 5 (sm_state sm_example)"
  by (simp add: shape_def sm_example_def)

lemma bits_gm_example: "bits (gm_state gm_example)"
  by (simp add: bits_def gm_example_def)

lemma bits_sm_example: "bits (sm_state sm_example)"
  by (simp add: bits_def sm_example_def)

lemma any2_gm_example: "any2 (gm_state gm_example)"
  by (simp add: any2_def any1_def gm_example_def)

lemma any2_sm_example: "any2 (sm_state sm_example)"
  by (simp add: any2_def any1_def sm_example_def)

lemma gm_stored_simps:
  "gm_state gm_stored = gm_state gm_example" "gm_samples gm_stored = [replicate 64 1]"
  by (simp_all add: gm_stored_def)

lemma sm_stored_simps:
  "sm_state sm_stored = sm_state sm_example" "sm_samples sm_stored = [replicate 25 1 @ [0]]"
  "sm_shape_var sm_stored = 1"
  by (simp_all add: sm_stored_def sm_example_def)

section \<open>Pointer events\<close>

lemma gm_cell_bounds: "gm_coords_to_cell e = Some (r, c) \<Longrightarrow> r < 8 \<and> c < 8"
  by (auto simp: gm_coords_to_cell_def gm_GRID_SIZE_def Let_def split: if_splits)

lemma sm_cell_bounds: "sm_coords_to_cell e = Some (r, c) \<Longrightarrow> r < 5 \<and> c < 5"
  by (auto simp: sm_coords_to_cell_def sm_GRID_SIZE_def Let_def split: if_splits)

lemma gm_coords_None_iff:
  "gm_coords_to_cell e = None \<longleftrightarrow>
   (ev_y e div CELL_SIZE < 0 \<or> gm_GRID_SIZE \<le> ev_y e div CELL_SIZE
    \<or> ev_x e div CELL_SIZE < 0 \<or> gm_GRID_SIZE \<le> ev_x e div CELL_SIZE)"
  by (auto simp: gm_coords_to_cell_def Let_def)

lemma sm_coords_None_iff:
  "sm_coords_to_cell e = None \<longleftrightarrow>
   (ev_y e div CELL_SIZE < 0 \<or> sm_GRID_SIZE \<le> ev_y e div CELL_SIZE
    \<or> ev_x e div CELL_SIZE < 0 \<or> sm_GRID_SIZE \<le> ev_x e div CELL_SIZE)"
  by (auto simp: sm_coords_to_cell_def Let_def)

lemma gm_outside:
  assumes "gm_coords_to_cell e = None"
  shows "gm_toggle_cell e s = Inr s \<and> gm_paint_motion e s = Inr s
       \<and> gm_erase_cell e s = Inr s \<and> gm_erase_motion e s = Inr s"
  using assms
  by (simp add: gm_toggle_cell_def gm_paint_motion_def gm_erase_cell_def gm_erase_motion_def)

lemma sm_outside:
  assumes "sm_coords_to_cell e = None"
  shows "sm_toggle_cell e t = Inr t \<and> sm_paint_motion e t = Inr t
       \<and> sm_erase_cell e t = Inr t \<and> sm_erase_motion e t = Inr t"
  using assms
  by (simp add: sm_toggle_cell_def sm_paint_motion_def sm_erase_cell_def sm_erase_motion_def)

lemma gm_toggle_cell_eq:
  "shape 8 (gm_state s) \<Longrightarrow> gm_coords_to_cell e = Some (r, c) \<Longrightarrow>
   gm_toggle_cell e s =
     Inr (s\<lparr>gm_state := (gm_state s)[r := (gm_state s ! r)[c := gm_state s ! r ! c XOR 1]]\<rparr>)"
  by (frule gm_cell_bounds) (simp add: gm_toggle_cell_def getitem_shape setitem_shape)

lemma sm_toggle_cell_eq:
  "shape 5 (sm_state t) \<Longrightarrow> sm_coords_to_cell e = Some (r, c) \<Longrightarrow>
   sm_toggle_cell e t =
     Inr (t\<lparr>sm_state := (sm_state t)[r := (sm_state t ! r)[c := 1 - sm_state t ! r ! c]]\<rparr>)"
  by (frule sm_cell_bounds) (simp add: sm_toggle_cell_def getitem_shape setitem_shape)

lemma gm_toggle_twice:
  assumes "shape 8 (gm_state s)" "gm_coords_to_cell e = Some (r, c)" "gm_coords_to_cell e' = Some (r, c)"
  shows "\<exists>s1. gm_toggle_cell e s = Inr s1 \<and> gm_state s1 ! r ! c = gm_state s ! r ! c XOR 1
            \<and> gm_toggle_cell e' s1 = Inr s"
proof -
  let ?a = "gm_state s"
  let ?s1 = "s\<lparr>gm_state := ?a[r := (?a ! r)[c := ?a ! r ! c XOR 1]]\<rparr>"
  from assms(2) have rc: "r < 8" "c < 8" by (auto dest: gm_cell_bounds)
  have 1: "gm_toggle_cell e s = Inr ?s1" by (rule gm_toggle_cell_eq [OF assms(1,2)])
  have sh: "shape 8 (gm_state ?s1)" using assms(1) by (simp add: shape_update)
  have v: "gm_state ?s1 ! r ! c = ?a ! r ! c XOR 1"
    using rc by (simp add: nth_update_cell [OF assms(1)])
  have "gm_toggle_cell e' ?s1 = Inr (?s1\<lparr>gm_state := (gm_state ?s1)[r := (gm_state ?s1 ! r)[c := gm_state ?s1 ! r ! c XOR 1]]\<rparr>)"
    by (rule gm_toggle_cell_eq [OF sh assms(3)])
  also have "(gm_state ?s1)[r := (gm_state ?s1 ! r)[c := gm_state ?s1 ! r ! c XOR 1]] = ?a"
    unfolding v by (simp add: update_cell_twice xor.assoc update_cell_same del: list_update_overwrite)
  finally have 2: "gm_toggle_cell e' ?s1 = Inr s" by simp
  from 1 v 2 show ?thesis by blast
qed

lemma sm_toggle_twice:
  assumes "shape 5 (sm_state t)" "sm_coords_to_cell e = Some (r, c)" "sm_coords_to_cell e' = Some (r, c)"
  shows "\<exists>t1. sm_toggle_cell e t = Inr t1 \<and> sm_state t1 ! r ! c = 1 - sm_state t ! r ! c
            \<and> sm_toggle_cell e' t1 = Inr t"
proof -
  let ?a = "sm_state t"
  let ?t1 = "t\<lparr>sm_state := ?a[r := (?a ! r)[c := 1 - ?a ! r ! c]]\<rparr>"
  from assms(2) have rc: "r < 5" "c < 5" by (auto dest: sm_cell_bounds)
  have 1: "sm_toggle_cell e t = Inr ?t1" by (rule sm_toggle_cell_eq [OF assms(1,2)])
  have sh: "shape 5 (sm_state ?t1)" using assms(1) by (simp add: shape_update)
  have v: "sm_state ?t1 ! r ! c = 1 - ?a ! r ! c"
    using rc by (simp add: nth_update_cell [OF assms(1)])
  have "sm_toggle_cell e' ?t1 = Inr (?t1\<lparr>sm_state := (sm_state ?t1)[r := (sm_state ?t1 ! r)[c := 1 - sm_state ?t1 ! r ! c]]\<rparr>)"
    by (rule sm_toggle_cell_eq [OF sh assms(3)])
  also have "(sm_state ?t1)[r := (sm_state ?t1 ! r)[c := 1 - sm_state ?t1 ! r ! c]] = ?a"
    unfolding v by (simp add: update_cell_twice update_cell_same del: list_update_overwrite)
  finally have 2: "sm_toggle_cell e' ?t1 = Inr t" by simp
  from 1 v 2 show ?thesis by blast
qed

lemma gm_paint_motion_eq:
  assumes "shape 8 (gm_state s)" "bits (gm_state s)" "gm_coords_to_cell e = Some (r, c)"
  shows "gm_paint_motion e s = Inr (s\<lparr>gm_state := (gm_state s)[r := (gm_state s ! r)[c := 1]]\<rparr>)"
proof -
  from assms(3) have rc: "r < 8" "c < 8" by (auto dest: gm_cell_bounds)
  show ?thesis
  proof (cases "gm_state s ! r ! c = 0")
    case True
    with assms rc show ?thesis
      by (simp add: gm_paint_motion_def getitem_shape setitem_shape)
  next
    case False
    with assms rc have "gm_state s ! r ! c = 1"
      using bits_cell [of 8 "gm_state s" r c] by simp
    then have "(gm_state s)[r := (gm_state s ! r)[c := 1]] = gm_state s"
      by (rule update_cell_same)
    with False assms rc show ?thesis
      by (simp add: gm_paint_motion_def getitem_shape)
  qed
qed

lemma gm_erase_cell_eq:
  assumes "shape 8 (gm_state s)" "gm_coords_to_cell e = Some (r, c)"
  shows "gm_erase_cell e s = Inr (s\<lparr>gm_state := (gm_state s)[r := (gm_state s ! r)[c := 0]]\<rparr>)"
proof -
  from assms(2) have rc: "r < 8" "c < 8" by (auto dest: gm_cell_bounds)
  show ?thesis
  proof (cases "gm_state s ! r ! c = 0")
    case True
    then have "(gm_state s)[r := (gm_state s ! r)[c := 0]] = gm_state s"
      by (rule update_cell_same)
    with True assms rc show ?thesis
      by (simp add: gm_erase_cell_def getitem_shape)
  next
    case False
    with assms rc show ?thesis
      by (simp add: gm_erase_cell_def getitem_shape setitem_shape)
  qed
qed

lemma sm_paint_motion_eq:
  "shape 5 (sm_state t) \<Longrightarrow> sm_coords_to_cell e = Some (r, c) \<Longrightarrow>
   sm_paint_motion e t = Inr (t\<lparr>sm_state := (sm_state t)[r := (sm_state t ! r)[c := 1]]\<rparr>)"
  by (frule sm_cell_bounds) (simp add: sm_paint_motion_def setitem_shape)

lemma sm_erase_cell_eq:
  "shape 5 (sm_state t) \<Longrightarrow> sm_coords_to_cell e = Some (r, c) \<Longrightarrow>
   sm_erase_cell e t = Inr (t\<lparr>sm_state := (sm_state t)[r := (sm_state t ! r)[c := 0]]\<rparr>)"
  by (frule sm_cell_bounds) (simp add: sm_erase_cell_def setitem_shape)

lemma sm_erase_motion_is_erase_cell: "sm_erase_motion e t = sm_erase_cell e t"
  by (simp add: sm_erase_motion_def sm_erase_cell_def)

lemma gm_paint_props:
  assumes "shape 8 (gm_state s)" "bits (gm_state s)"
  shows "\<exists>s'. gm_paint_motion e s = Inr s' \<and> gm_paint_motion e s' = Inr s'
            \<and> gm_samples s' = gm_samples s \<and> shape 8 (gm_state s')
            \<and> (\<forall>i<8. \<forall>j<8.
                  gm_state s' ! i ! j =
                    (if gm_coords_to_cell e = Some (i, j) then 1 else gm_state s ! i ! j)
                \<and> gm_state s ! i ! j \<le> gm_state s' ! i ! j)"
proof (cases "gm_coords_to_cell e")
  case None
  with assms show ?thesis by (simp add: gm_paint_motion_def)
next
  case (Some cell)
  obtain r c where cell: "cell = (r, c)" by (cases cell)
  let ?a = "gm_state s"
  let ?s' = "s\<lparr>gm_state := ?a[r := (?a ! r)[c := 1]]\<rparr>"
  have co: "gm_coords_to_cell e = Some (r, c)" using Some cell by simp
  have sh: "shape 8 (gm_state ?s')" using assms(1) by (simp add: shape_update)
  have bi: "bits (gm_state ?s')" using assms(2) by (simp add: bits_update)
  have 1: "gm_paint_motion e s = Inr ?s'" by (rule gm_paint_motion_eq [OF assms co])
  have "gm_paint_motion e ?s' = Inr (?s'\<lparr>gm_state := (gm_state ?s')[r := (gm_state ?s' ! r)[c := 1]]\<rparr>)"
    by (rule gm_paint_motion_eq [OF sh bi co])
  then have 2: "gm_paint_motion e ?s' = Inr ?s'"
    by (simp add: update_cell_twice del: list_update_overwrite)
  have 3: "gm_state ?s' ! i ! j = (if gm_coords_to_cell e = Some (i, j) then 1 else ?a ! i ! j)
         \<and> ?a ! i ! j \<le> gm_state ?s' ! i ! j" if "i < 8" "j < 8" for i j
  proof -
    have "?a ! i ! j = 0 \<or> ?a ! i ! j = 1"
      using bits_cell [OF assms, of i j] that by simp
    then show ?thesis
      using that co by (auto simp: nth_update_cell [OF assms(1)])
  qed
  have 4: "gm_samples ?s' = gm_samples s" by simp
  from 1 2 3 4 sh show ?thesis by blast
qed

lemma gm_erase_props:
  assumes "shape 8 (gm_state s)"
  shows "\<exists>s'. gm_erase_cell e s = Inr s' \<and> gm_erase_cell e s' = Inr s'
            \<and> gm_samples s' = gm_samples s \<and> shape 8 (gm_state s')
            \<and> (\<forall>i<8. \<forall>j<8.
                  gm_state s' ! i ! j =
                    (if gm_coords_to_cell e = Some (i, j) then 0 else gm_state s ! i ! j)
                \<and> gm_state s' ! i ! j \<le> gm_state s ! i ! j)"
proof (cases "gm_coords_to_cell e")
  case None
  with assms show ?thesis by (simp add: gm_erase_cell_def)
next
  case (Some cell)
  obtain r c where cell: "cell = (r, c)" by (cases cell)
  let ?a = "gm_state s"
  let ?s' = "s\<lparr>gm_state := ?a[r := (?a ! r)[c := 0]]\<rparr>"
  have co: "gm_coords_to_cell e = Some (r, c)" using Some cell by simp
  have sh: "shape 8 (gm_state ?s')" using assms by (simp add: shape_update)
  have 1: "gm_erase_cell e s = Inr ?s'" by (rule gm_erase_cell_eq [OF assms co])
  have "gm_erase_cell e ?s' = Inr (?s'\<lparr>gm_state := (gm_state ?s')[r := (gm_state ?s' ! r)[c := 0]]\<rparr>)"
    by (rule gm_erase_cell_eq [OF sh co])
  then have 2: "gm_erase_cell e ?s' = Inr ?s'"
    by (simp add: update_cell_twice del: list_update_overwrite)
  have 3: "\<forall>i<8. \<forall>j<8.
        gm_state ?s' ! i ! j = (if gm_coords_to_cell e = Some (i, j) then 0 else ?a ! i ! j)
         \<and> gm_state ?s' ! i ! j \<le> ?a ! i ! j"
    using co by (auto simp: nth_update_cell [OF assms])
  have 4: "gm_samples ?s' = gm_samples s" by simp
  from 1 2 3 4 sh show ?thesis by blast
qed

lemma sm_paint_props:
  assumes "shape 5 (sm_state t)" "bits (sm_state t)"
  shows "\<exists>t'. sm_paint_motion e t = Inr t' \<and> sm_paint_motion e t' = Inr t'
            \<and> sm_samples t' = sm_samples t \<and> sm_shape_var t' = sm_shape_var t
            \<and> shape 5 (sm_state t')
            \<and> (\<forall>i<5. \<forall>j<5.
                  sm_state t' ! i ! j =
                    (if sm_coords_to_cell e = Some (i, j) then 1 else sm_state t ! i ! j)
                \<and> sint (sm_state t ! i ! j) \<le> sint (sm_state t' ! i ! j))"
proof (cases "sm_coords_to_cell e")
  case None
  with assms show ?thesis by (simp add: sm_paint_motion_def)
next
  case (Some cell)
  obtain r c where cell: "cell = (r, c)" by (cases cell)
  let ?a = "sm_state t"
  let ?t' = "t\<lparr>sm_state := ?a[r := (?a ! r)[c := 1]]\<rparr>"
  have co: "sm_coords_to_cell e = Some (r, c)" using Some cell by simp
  have sh: "shape 5 (sm_state ?t')" using assms(1) by (simp add: shape_update)
  have 1: "sm_paint_motion e t = Inr ?t'" by (rule sm_paint_motion_eq [OF assms(1) co])
  have "sm_paint_motion e ?t' = Inr (?t'\<lparr>sm_state := (sm_state ?t')[r := (sm_state ?t' ! r)[c := 1]]\<rparr>)"
    by (rule sm_paint_motion_eq [OF sh co])
  then have 2: "sm_paint_motion e ?t' = Inr ?t'"
    by (simp add: update_cell_twice del: list_update_overwrite)
  have 3: "\<forall>i<5. \<forall>j<5.
        sm_state ?t' ! i ! j = (if sm_coords_to_cell e = Some (i, j) then 1 else ?a ! i ! j)
         \<and> sint (?a ! i ! j) \<le> sint (sm_state ?t' ! i ! j)"
  proof (intro allI impI)
    fix i j :: nat
    assume ij: "i < 5" "j < 5"
    have "?a ! i ! j = 0 \<or> ?a ! i ! j = 1"
      using bits_cell [OF assms, of i j] ij by simp
    then show "sm_state ?t' ! i ! j = (if sm_coords_to_cell e = Some (i, j) then 1 else ?a ! i ! j)
         \<and> sint (?a ! i ! j) \<le> sint (sm_state ?t' ! i ! j)"
      using ij co by (auto simp: nth_update_cell [OF assms(1)])
  qed
  have 4: "sm_samples ?t' = sm_samples t \<and> sm_shape_var ?t' = sm_shape_var t" by simp
  from 1 2 3 4 sh show ?thesis by blast
qed

lemma sm_erase_cell_props:
  assumes "shape 5 (sm_state t)" "bits (sm_state t)"
  shows "\<exists>t'. sm_erase_cell e t = Inr t' \<and> sm_erase_cell e t' = Inr t'
            \<and> sm_samples t' = sm_samples t \<and> sm_shape_var t' = sm_shape_var t
            \<and> shape 5 (sm_state t')
            \<and> (\<forall>i<5. \<forall>j<5.
                  sm_state t' ! i ! j =
                    (if sm_coords_to_cell e = Some (i, j) then 0 else sm_state t ! i ! j)
                \<and> sint (sm_state t' ! i ! j) \<le> sint (sm_state t ! i ! j))"
proof (cases "sm_coords_to_cell e")
  case None
  with assms show ?thesis by (simp add: sm_erase_cell_def)
next
  case (Some cell)
  obtain r c where cell: "cell = (r, c)" by (cases cell)
  let ?a = "sm_state t"
  let ?t' = "t\<lparr>sm_state := ?a[r := (?a ! r)[c := 0]]\<rparr>"
  have co: "sm_coords_to_cell e = Some (r, c)" using Some cell by simp
  have sh: "shape 5 (sm_state ?t')" using assms(1) by (simp add: shape_update)
  have 1: "sm_erase_cell e t = Inr ?t'" by (rule sm_erase_cell_eq [OF assms(1) co])
  have "sm_erase_cell e ?t' = Inr (?t'\<lparr>sm_state := (sm_state ?t')[r := (sm_state ?t' ! r)[c := 0]]\<rparr>)"
    by (rule sm_erase_cell_eq [OF sh co])
  then have 2: "sm_erase_cell e ?t' = Inr ?t'"
    by (simp add: update_cell_twice del: list_update_overwrite)
  have 3: "\<forall>i<5. \<forall>j<5.
        sm_state ?t' ! i ! j = (if sm_coords_to_cell e = Some (i, j) then 0 else ?a ! i ! j)
         \<and> sint (sm_state ?t' ! i ! j) \<le> sint (?a ! i ! j)"
  proof (intro allI impI)
    fix i j :: nat
    assume ij: "i < 5" "j < 5"
    have "?a ! i ! j = 0 \<or> ?a ! i ! j = 1"
      using bits_cell [OF assms, of i j] ij by simp
    then show "sm_state ?t' ! i ! j = (if sm_coords_to_cell e = Some (i, j) then 0 else ?a ! i ! j)
         \<and> sint (sm_state ?t' ! i ! j) \<le> sint (?a ! i ! j)"
      using ij co by (auto simp: nth_update_cell [OF assms(1)])
  qed
  have 4: "sm_samples ?t' = sm_samples t \<and> sm_shape_var ?t' = sm_shape_var t" by simp
  from 1 2 3 4 sh show ?thesis by blast
qed

text \<open>
  Claim C7. Two clicks of the primary button on the same cell of the grid, with nothing
  else in between, flip the cell and flip it back: after the second click the whole
  state of the program is the one before the first.
\<close>

theorem toggle_twice_restores:
  assumes "shape 8 (gm_state s)"
    and "gm_coords_to_cell e = Some (r, c)" and "gm_coords_to_cell e' = Some (r, c)"
    and "shape 5 (sm_state t)"
    and "sm_coords_to_cell d = Some (p, q)" and "sm_coords_to_cell d' = Some (p, q)"
  shows "(\<exists>s1. gm_toggle_cell e s = Inr s1
              \<and> gm_state s1 ! r ! c = gm_state s ! r ! c XOR 1
              \<and> gm_toggle_cell e' s1 = Inr s)
       \<and> (\<exists>t1. sm_toggle_cell d t = Inr t1
              \<and> sm_state t1 ! p ! q = 1 - sm_state t ! p ! q
              \<and> sm_toggle_cell d' t1 = Inr t)"
  using gm_toggle_twice [OF assms(1-3)] sm_toggle_twice [OF assms(4-6)] by (rule conjI)

theorem toggle_twice_restores_witness:
  "shape 8 (gm_state gm_example)
   \<and> gm_coords_to_cell \<lparr>ev_x = 10, ev_y = 20\<rparr> = Some (0, 0)
   \<and> gm_coords_to_cell \<lparr>ev_x = 49, ev_y = 0\<rparr> = Some (0, 0)
   \<and> shape 5 (sm_state sm_example)
   \<and> sm_coords_to_cell \<lparr>ev_x = 200, ev_y = 249\<rparr> = Some (4, 4)
   \<and> sm_coords_to_cell \<lparr>ev_x = 249, ev_y = 200\<rparr> = Some (4, 4)
   \<and> (\<exists>s1. gm_toggle_cell \<lparr>ev_x = 10, ev_y = 20\<rparr> gm_example = Inr s1
          \<and> gm_state s1 ! 0 ! 0 = gm_state gm_example ! 0 ! 0 XOR 1
          \<and> gm_toggle_cell \<lparr>ev_x = 49, ev_y = 0\<rparr> s1 = Inr gm_example)
   \<and> (\<exists>t1. sm_toggle_cell \<lparr>ev_x = 200, ev_y = 249\<rparr> sm_example = Inr t1
          \<and> sm_state t1 ! 4 ! 4 = 1 - sm_state sm_example ! 4 ! 4
          \<and> sm_toggle_cell \<lparr>ev_x = 249, ev_y = 200\<rparr> t1 = Inr sm_example)"
proof -
  have g1: "gm_coords_to_cell \<lparr>ev_x = 10, ev_y = 20\<rparr> = Some (0, 0)"
    and g2: "gm_coords_to_cell \<lparr>ev_x = 49, ev_y = 0\<rparr> = Some (0, 0)"
    by (simp_all add: gm_coords_to_cell_def CELL_SIZE_def gm_GRID_SIZE_def)
  have s1: "sm_coords_to_cell \<lparr>ev_x = 200, ev_y = 249\<rparr> = Some (4, 4)"
    and s2: "sm_coords_to_cell \<lparr>ev_x = 249, ev_y = 200\<rparr> = Some (4, 4)"
    by (simp_all add: sm_coords_to_cell_def CELL_SIZE_def sm_GRID_SIZE_def)
  from toggle_twice_restores [OF shape_gm_example g1 g2 shape_sm_example s1 s2]
  show ?thesis using g1 g2 s1 s2 shape_gm_example shape_sm_example by blast
qed

text \<open>
  Claim C8. On a grid of bits, a primary-button drag sets the addressed cell to 1 and a
  secondary-button click or drag sets it to 0; every other cell, the sample store and the
  label keep their values, so painting never lowers a cell and erasing never raises one.
  Repeating the event changes nothing more. An event outside the grid addresses no cell.
\<close>

theorem paint_erase_monotone:
  assumes "shape 8 (gm_state s)" and "bits (gm_state s)"
    and "shape 5 (sm_state t)" and "bits (sm_state t)"
  shows "(\<exists>s'. gm_paint_motion e s = Inr s' \<and> gm_paint_motion e s' = Inr s'
            \<and> gm_samples s' = gm_samples s \<and> shape 8 (gm_state s')
            \<and> (\<forall>i<8. \<forall>j<8.
                  gm_state s' ! i ! j =
                    (if gm_coords_to_cell e = Some (i, j) then 1 else gm_state s ! i ! j)
                \<and> gm_state s ! i ! j \<le> gm_state s' ! i ! j))
       \<and> (\<exists>s'. gm_erase_cell e s = Inr s' \<and> gm_erase_cell e s' = Inr s'
            \<and> gm_samples s' = gm_samples s \<and> shape 8 (gm_state s')
            \<and> (\<forall>i<8. \<forall>j<8.
                  gm_state s' ! i ! j =
                    (if gm_coords_to_cell e = Some (i, j) then 0 else gm_state s ! i ! j)
                \<and> gm_state s' ! i ! j \<le> gm_state s ! i ! j))
       \<and> gm_erase_motion e s = gm_erase_cell e s
       \<and> (\<exists>t'. sm_paint_motion e t = Inr t' \<and> sm_paint_motion e t' = Inr t'
            \<and> sm_samples t' = sm_samples t \<and> sm_shape_var t' = sm_shape_var t
            \<and> shape 5 (sm_state t')
            \<and> (\<forall>i<5. \<forall>j<5.
                  sm_state t' ! i ! j =
                    (if sm_coords_to_cell e = Some (i, j) then 1 else sm_state t ! i ! j)
                \<and> sint (sm_state t ! i ! j) \<le> sint (sm_state t' ! i ! j)))
       \<and> (\<exists>t'. sm_erase_cell e t = Inr t' \<and> sm_erase_cell e t' = Inr t'
            \<and> sm_samples t' = sm_samples t \<and> sm_shape_var t' = sm_shape_var t
            \<and> shape 5 (sm_state t')
            \<and> (\<forall>i<5. \<forall>j<5.
                  sm_state t' ! i ! j =
                    (if sm_coords_to_cell e = Some (i, j) then 0 else sm_state t ! i ! j)
                \<and> sint (sm_state t' ! i ! j) \<le> sint (sm_state t ! i ! j)))
       \<and> sm_erase_motion e t = sm_erase_cell e t"
  by (intro conjI gm_paint_props [OF assms(1,2)] gm_erase_props [OF assms(1)]
        sm_paint_props [OF assms(3,4)] sm_erase_cell_props [OF assms(3,4)]
        sm_erase_motion_is_erase_cell gm_erase_motion_def)

theorem paint_erase_monotone_witness:
  "shape 8 (gm_state gm_example) \<and> bits (gm_state gm_example)
   \<and> shape 5 (sm_state sm_example) \<and> bits (sm_state sm_example)
   \<and> (\<exists>s'. gm_paint_motion \<lparr>ev_x = 60, ev_y = 10\<rparr> gm_example = Inr s'
          \<and> gm_state s' ! 0 ! 1 = 1 \<and> gm_state s' ! 0 ! 0 = 1 \<and> gm_state s' ! 1 ! 0 = 0)
   \<and> (\<exists>s'. gm_erase_cell \<lparr>ev_x = 60, ev_y = 10\<rparr> gm_example = Inr s'
          \<and> gm_state s' ! 0 ! 1 = 0 \<and> gm_state s' ! 0 ! 0 = 1)
   \<and> (\<exists>t'. sm_paint_motion \<lparr>ev_x = 60, ev_y = 10\<rparr> sm_example = Inr t'
          \<and> sm_state t' ! 0 ! 1 = 1 \<and> sm_state t' ! 4 ! 4 = 1 \<and> sm_state t' ! 0 ! 0 = 0)
   \<and> (\<exists>t'. sm_erase_cell \<lparr>ev_x = 60, ev_y = 10\<rparr> sm_example = Inr t'
          \<and> sm_state t' ! 0 ! 1 = 0 \<and> sm_state t' ! 4 ! 4 = 1)"
proof -
  let ?e = "\<lparr>ev_x = 60, ev_y = 10\<rparr>"
  have g: "gm_coords_to_cell ?e = Some (0, 1)"
    by (simp add: gm_coords_to_cell_def CELL_SIZE_def gm_GRID_SIZE_def)
  have s: "sm_coords_to_cell ?e = Some (0, 1)"
    by (simp add: sm_coords_to_cell_def CELL_SIZE_def sm_GRID_SIZE_def)
  have gv: "gm_state gm_example ! 0 ! 0 = 1" "gm_state gm_example ! 1 ! 0 = 0"
    by (simp_all add: gm_example_def)
  have sv: "sm_state sm_example ! 4 ! 4 = 1" "sm_state sm_example ! 0 ! 0 = 0"
    by (simp_all add: sm_example_def)
  note w = paint_erase_monotone [OF shape_gm_example bits_gm_example
      shape_sm_example bits_sm_example, of ?e]
  from w obtain s1 where p1: "gm_paint_motion ?e gm_example = Inr s1"
    and q1: "\<forall>i<8. \<forall>j<8. gm_state s1 ! i ! j =
               (if gm_coords_to_cell ?e = Some (i, j) then 1 else gm_state gm_example ! i ! j)
             \<and> gm_state gm_example ! i ! j \<le> gm_state s1 ! i ! j"
    by blast
  from q1 have "gm_state s1 ! 0 ! 1 = 1 \<and> gm_state s1 ! 0 ! 0 = 1 \<and> gm_state s1 ! 1 ! 0 = 0"
    using g gv by simp
  with p1 have 1: "\<exists>s'. gm_paint_motion ?e gm_example = Inr s'
          \<and> gm_state s' ! 0 ! 1 = 1 \<and> gm_state s' ! 0 ! 0 = 1 \<and> gm_state s' ! 1 ! 0 = 0"
    by blast
  from w obtain s2 where p2: "gm_erase_cell ?e gm_example = Inr s2"
    and q2: "\<forall>i<8. \<forall>j<8. gm_state s2 ! i ! j =
               (if gm_coords_to_cell ?e = Some (i, j) then 0 else gm_state gm_example ! i ! j)
             \<and> gm_state s2 ! i ! j \<le> gm_state gm_example ! i ! j"
    by blast
  from q2 have "gm_state s2 ! 0 ! 1 = 0 \<and> gm_state s2 ! 0 ! 0 = 1"
    using g gv by simp
  with p2 have 2: "\<exists>s'. gm_erase_cell ?e gm_example = Inr s'
          \<and> gm_state s' ! 0 ! 1 = 0 \<and> gm_state s' ! 0 ! 0 = 1"
    by blast
  from w obtain t1 where p3: "sm_paint_motion ?e sm_example = Inr t1"
    and q3: "\<forall>i<5. \<forall>j<5. sm_state t1 ! i ! j =
               (if sm_coords_to_cell ?e = Some (i, j) then 1 else sm_state sm_example ! i ! j)
             \<and> sint (sm_state sm_example ! i ! j) \<le> sint (sm_state t1 ! i ! j)"
    by blast
  from q3 have "sm_state t1 ! 0 ! 1 = 1 \<and> sm_state t1 ! 4 ! 4 = 1 \<and> sm_state t1 ! 0 ! 0 = 0"
    using s sv by simp
  with p3 have 3: "\<exists>t'. sm_paint_motion ?e sm_example = Inr t'
          \<and> sm_state t' ! 0 ! 1 = 1 \<and> sm_state t' ! 4 ! 4 = 1 \<and> sm_state t' ! 0 ! 0 = 0"
    by blast
  from w obtain t2 where p4: "sm_erase_cell ?e sm_example = Inr t2"
    and q4: "\<forall>i<5. \<forall>j<5. sm_state t2 ! i ! j =
               (if sm_coords_to_cell ?e = Some (i, j) then 0 else sm_state sm_example ! i ! j)
             \<and> sint (sm_state t2 ! i ! j) \<le> sint (sm_state sm_example ! i ! j)"
    by blast
  from q4 have "sm_state t2 ! 0 ! 1 = 0 \<and> sm_state t2 ! 4 ! 4 = 1"
    using s sv by simp
  with p4 have 4: "\<exists>t'. sm_erase_cell ?e sm_example = Inr t'
          \<and> sm_state t' ! 0 ! 1 = 0 \<and> sm_state t' ! 4 ! 4 = 1"
    by blast
  from 1 2 3 4 show ?thesis
    using shape_gm_example bits_gm_example shape_sm_example bits_sm_example by blast
qed

text \<open>
  Claim C9. A pointer event whose coordinates, divided by the cell size, give a row or a
  column outside the grid is ignored by the toggle, paint and erase handlers: each
  returns normally with the state it was given.
\<close>

theorem outside_ignored:
  "((ev_y e div CELL_SIZE < 0 \<or> gm_GRID_SIZE \<le> ev_y e div CELL_SIZE
      \<or> ev_x e div CELL_SIZE < 0 \<or> gm_GRID_SIZE \<le> ev_x e div CELL_SIZE) \<longrightarrow>
     gm_toggle_cell e s = Inr s \<and> gm_paint_motion e s = Inr s
     \<and> gm_erase_cell e s = Inr s \<and> gm_erase_motion e s = Inr s)
   \<and> ((ev_y e div CELL_SIZE < 0 \<or> sm_GRID_SIZE \<le> ev_y e div CELL_SIZE
      \<or> ev_x e div CELL_SIZE < 0 \<or> sm_GRID_SIZE \<le> ev_x e div CELL_SIZE) \<longrightarrow>
     sm_toggle_cell e t = Inr t \<and> sm_paint_motion e t = Inr t
     \<and> sm_erase_cell e t = Inr t \<and> sm_erase_motion e t = Inr t)"
  using gm_outside [of e s] sm_outside [of e t]
  unfolding gm_coords_None_iff sm_coords_None_iff by blast

theorem outside_ignored_witness:
  "(ev_x \<lparr>ev_x = - 1, ev_y = 420\<rparr> div CELL_SIZE < 0
    \<and> gm_GRID_SIZE \<le> ev_y \<lparr>ev_x = - 1, ev_y = 420\<rparr> div CELL_SIZE
    \<and> sm_GRID_SIZE \<le> ev_y \<lparr>ev_x = - 1, ev_y = 420\<rparr> div CELL_SIZE)
   \<and> gm_toggle_cell \<lparr>ev_x = - 1, ev_y = 420\<rparr> gm_example = Inr gm_example
   \<and> gm_paint_motion \<lparr>ev_x = - 1, ev_y = 420\<rparr> gm_example = Inr gm_example
   \<and> gm_erase_cell \<lparr>ev_x = - 1, ev_y = 420\<rparr> gm_example = Inr gm_example
   \<and> gm_erase_motion \<lparr>ev_x = - 1, ev_y = 420\<rparr> gm_example = Inr gm_example
   \<and> sm_toggle_cell \<lparr>ev_x = - 1, ev_y = 420\<rparr> sm_example = Inr sm_example
   \<and> sm_paint_motion \<lparr>ev_x = - 1, ev_y = 420\<rparr> sm_example = Inr sm_example
   \<and> sm_erase_cell \<lparr>ev_x = - 1, ev_y = 420\<rparr> sm_example = Inr sm_example
   \<and> sm_erase_motion \<lparr>ev_x = - 1, ev_y = 420\<rparr> sm_example = Inr sm_example"
proof -
  have h: "ev_x \<lparr>ev_x = - 1, ev_y = 420\<rparr> div CELL_SIZE < 0
    \<and> gm_GRID_SIZE \<le> ev_y \<lparr>ev_x = - 1, ev_y = 420\<rparr> div CELL_SIZE
    \<and> sm_GRID_SIZE \<le> ev_y \<lparr>ev_x = - 1, ev_y = 420\<rparr> div CELL_SIZE"
    by (simp add: CELL_SIZE_def gm_GRID_SIZE_def sm_GRID_SIZE_def)
  from outside_ignored [of "\<lparr>ev_x = - 1, ev_y = 420\<rparr>" gm_example sm_example] h
  show ?thesis by blast
qed

section \<open>Commit (the Next button)\<close>

lemma gm_next_zero:
  "\<not> any2 (gm_state s) \<Longrightarrow>
   gm_next s = \<lparr>app = s, shown = [ShowWarning Drawing_Empty], written = [], raised = None\<rparr>"
  by (simp add: gm_next_def any1_flatten quiet_def)

lemma gm_next_drawn:
  "any2 (gm_state s) \<Longrightarrow>
   gm_next s =
     \<lparr>app = \<lparr>gm_state = fill0 (gm_state s),
             gm_samples = gm_samples s @ [flatten (gm_state s)]\<rparr>,
      shown = [ShowInfo (Drawing_Stored (Suc (length (gm_samples s))))],
      written = [], raised = None\<rparr>"
  by (simp add: gm_next_def any1_flatten gm_reset_def Let_def)

lemma sm_next_zero:
  "\<not> any2 (sm_state t) \<Longrightarrow>
   sm_next t = \<lparr>app = t, shown = [ShowWarning Sample_Empty], written = [], raised = None\<rparr>"
  by (simp add: sm_next_def quiet_def)

lemma sm_next_drawn:
  "any2 (sm_state t) \<Longrightarrow>
   sm_next t =
     \<lparr>app = \<lparr>sm_state = fill0 (sm_state t),
             sm_samples = sm_samples t @ [map sint (flatten (sm_state t)) @ [sm_shape_var t]],
             sm_shape_var = 0\<rparr>,
      shown = [ShowInfo (Sample_Saved (Suc (length (sm_samples t))))],
      written = [], raised = None\<rparr>"
  by (simp add: sm_next_def sm_reset_def quiet_def Let_def)

text \<open>
  Claim C1. In both programs Next shows a warning and changes nothing exactly when the
  grid is all zero. On any other grid it appends one sample to the store, the flattened
  grid of 64 entries (8 x 8 tool) or the flattened grid followed by the label, 26 entries
  (5 x 5 tool), and sets the grid, and the label where there is one, back to zero.
\<close>

theorem commit_appends_unless_empty:
  assumes "shape 8 (gm_state s)" and "shape 5 (sm_state t)"
  shows "((app (gm_next s) = s \<and> (\<exists>m. ShowWarning m \<in> set (shown (gm_next s))))
            \<longleftrightarrow> gm_state s = replicate 8 (replicate 8 0))
       \<and> (gm_state s \<noteq> replicate 8 (replicate 8 0) \<longrightarrow>
            gm_samples (app (gm_next s)) = gm_samples s @ [flatten (gm_state s)]
          \<and> length (flatten (gm_state s)) = 8 * 8
          \<and> gm_state (app (gm_next s)) = replicate 8 (replicate 8 0))
       \<and> ((app (sm_next t) = t \<and> (\<exists>m. ShowWarning m \<in> set (shown (sm_next t))))
            \<longleftrightarrow> sm_state t = replicate 5 (replicate 5 0))
       \<and> (sm_state t \<noteq> replicate 5 (replicate 5 0) \<longrightarrow>
            sm_samples (app (sm_next t)) =
              sm_samples t @ [map sint (flatten (sm_state t)) @ [sm_shape_var t]]
          \<and> length (map sint (flatten (sm_state t)) @ [sm_shape_var t]) = 5 * 5 + 1
          \<and> sm_state (app (sm_next t)) = replicate 5 (replicate 5 0)
          \<and> sm_shape_var (app (sm_next t)) = 0)"
proof -
  note gz = not_any2_iff [OF assms(1)] and sz = not_any2_iff [OF assms(2)]
  have g1: "gm_state s = replicate 8 (replicate 8 0) \<Longrightarrow>
            app (gm_next s) = s \<and> (\<exists>m. ShowWarning m \<in> set (shown (gm_next s)))"
    using gz by (simp add: gm_next_zero)
  have g2: "gm_state s \<noteq> replicate 8 (replicate 8 0) \<Longrightarrow>
            gm_samples (app (gm_next s)) = gm_samples s @ [flatten (gm_state s)]
          \<and> gm_state (app (gm_next s)) = replicate 8 (replicate 8 0)
          \<and> (\<forall>m. ShowWarning m \<notin> set (shown (gm_next s)))"
    using gz by (simp add: gm_next_drawn fill0_replicate [OF assms(1)])
  have s1: "sm_state t = replicate 5 (replicate 5 0) \<Longrightarrow>
            app (sm_next t) = t \<and> (\<exists>m. ShowWarning m \<in> set (shown (sm_next t)))"
    using sz by (simp add: sm_next_zero)
  have s2: "sm_state t \<noteq> replicate 5 (replicate 5 0) \<Longrightarrow>
            sm_samples (app (sm_next t)) =
              sm_samples t @ [map sint (flatten (sm_state t)) @ [sm_shape_var t]]
          \<and> sm_state (app (sm_next t)) = replicate 5 (replicate 5 0)
          \<and> sm_shape_var (app (sm_next t)) = 0
          \<and> (\<forall>m. ShowWarning m \<notin> set (shown (sm_next t)))"
    using sz by (simp add: sm_next_drawn fill0_replicate [OF assms(2)])
  have lg: "length (flatten (gm_state s)) = 8 * 8"
    by (rule length_flatten [OF assms(1)])
  have ls: "length (map sint (flatten (sm_state t)) @ [sm_shape_var t]) = 5 * 5 + 1"
    by (simp add: length_flatten [OF assms(2)])
  show ?thesis using g1 g2 s1 s2 lg ls by blast
qed

theorem commit_appends_unless_empty_witness:
  "shape 8 (gm_state gm_example) \<and> shape 5 (sm_state sm_example)
   \<and> gm_state gm_example \<noteq> replicate 8 (replicate 8 0)
   \<and> gm_samples (app (gm_next gm_example)) = [flatten (gm_state gm_example)]
   \<and> gm_state (app (gm_next gm_example)) = replicate 8 (replicate 8 0)
   \<and> sm_state sm_example \<noteq> replicate 5 (replicate 5 0)
   \<and> sm_samples (app (sm_next sm_example)) =
       [replicate 24 0 @ [1, 1]]
   \<and> sm_state (app (sm_next sm_example)) = replicate 5 (replicate 5 0)
   \<and> sm_shape_var (app (sm_next sm_example)) = 0"
proof -
  have ng: "gm_state gm_example \<noteq> replicate 8 (replicate 8 0)"
    by (simp add: gm_example_def eval_nat_numeral)
  have ns: "sm_state sm_example \<noteq> replicate 5 (replicate 5 0)"
    by (simp add: sm_example_def eval_nat_numeral)
  have fs: "map sint (flatten (sm_state sm_example)) @ [sm_shape_var sm_example] =
            replicate 24 0 @ [1, 1]"
    by (simp add: sm_example_def flatten_def eval_nat_numeral)
  have gs: "gm_samples gm_example = []" and ss: "sm_samples sm_example = []"
    by (simp_all add: gm_example_def sm_example_def)
  show ?thesis
    using commit_appends_unless_empty [OF shape_gm_example shape_sm_example] ng ns fs gs ss
    by (simp add: shape_gm_example shape_sm_example)
qed

lemma gm_save_all_prepare_drawn:
  "any2 (gm_state s) \<Longrightarrow>
   gm_save_all_prepare s = Ask_Save_As (s\<lparr>gm_samples := gm_samples s @ [flatten (gm_state s)]\<rparr>)"
  by (simp add: gm_save_all_prepare_def)

lemma sm_save_all_prepare_drawn:
  "any2 (sm_state t) \<Longrightarrow>
   sm_save_all_prepare t =
     Ask_Save_As (t\<lparr>sm_samples := sm_samples t @ [map sint (flatten (sm_state t)) @ [sm_shape_var t]]\<rparr>)"
  by (simp add: sm_save_all_prepare_def Let_def)

lemma gm_save_all_prepare_blank:
  "\<not> any2 (gm_state s) \<Longrightarrow>
   gm_save_all_prepare s =
     (if gm_samples s = [] then Done ((quiet s)\<lparr>shown := [ShowWarning Nothing_To_Save]\<rparr>)
      else Ask_Save_As s)"
  by (simp add: gm_save_all_prepare_def)

lemma sm_save_all_prepare_blank:
  "\<not> any2 (sm_state t) \<Longrightarrow>
   sm_save_all_prepare t =
     (if sm_samples t = [] then Done ((quiet t)\<lparr>shown := [ShowWarning No_Samples]\<rparr>)
      else Ask_Save_As t)"
  by (simp add: sm_save_all_prepare_def)

text \<open>
  Claim C5. The sample that Next appends, and the one that the table export appends
  before it opens the dialog, hold the value of cell (r, c) at index r * N + c, for every
  row r and column c of the grid.
\<close>

theorem flatten_row_major:
  assumes "shape 8 (gm_state s)" and "any2 (gm_state s)" and "r < 8" and "c < 8"
    and "shape 5 (sm_state t)" and "any2 (sm_state t)" and "p < 5" and "q < 5"
  shows "flatten (gm_state s) ! (r * 8 + c) = gm_state s ! r ! c
       \<and> last (gm_samples (app (gm_next s))) ! (r * 8 + c) = gm_state s ! r ! c
       \<and> (\<exists>s'. gm_save_all_prepare s = Ask_Save_As s'
              \<and> last (gm_samples s') ! (r * 8 + c) = gm_state s ! r ! c)
       \<and> flatten (sm_state t) ! (p * 5 + q) = sm_state t ! p ! q
       \<and> last (sm_samples (app (sm_next t))) ! (p * 5 + q) = sint (sm_state t ! p ! q)
       \<and> (\<exists>t'. sm_save_all_prepare t = Ask_Save_As t'
              \<and> last (sm_samples t') ! (p * 5 + q) = sint (sm_state t ! p ! q))"
proof -
  have g: "flatten (gm_state s) ! (r * 8 + c) = gm_state s ! r ! c"
    by (rule flatten_nth [OF assms(1,3,4)])
  have f: "flatten (sm_state t) ! (p * 5 + q) = sm_state t ! p ! q"
    by (rule flatten_nth [OF assms(5,7,8)])
  have "p * 5 + q < 5 * 5" using assms(7,8) by simp
  then have lt: "p * 5 + q < length (flatten (sm_state t))"
    by (simp add: length_flatten [OF assms(5)])
  then have v: "(map sint (flatten (sm_state t)) @ [sm_shape_var t]) ! (p * 5 + q)
                = sint (sm_state t ! p ! q)"
    by (simp add: nth_append f)
  show ?thesis
    using g f v
    by (simp add: gm_next_drawn [OF assms(2)] sm_next_drawn [OF assms(6)]
          gm_save_all_prepare_drawn [OF assms(2)] sm_save_all_prepare_drawn [OF assms(6)])
qed

theorem flatten_row_major_witness:
  "shape 8 (gm_state gm_example) \<and> any2 (gm_state gm_example) \<and> (0::nat) < 8
   \<and> shape 5 (sm_state sm_example) \<and> any2 (sm_state sm_example) \<and> (4::nat) < 5
   \<and> last (gm_samples (app (gm_next gm_example))) ! (0 * 8 + 0) = 1
   \<and> last (sm_samples (app (sm_next sm_example))) ! (4 * 5 + 4) = 1
   \<and> (\<exists>s'. gm_save_all_prepare gm_example = Ask_Save_As s'
          \<and> last (gm_samples s') ! (0 * 8 + 0) = 1)
   \<and> (\<exists>t'. sm_save_all_prepare sm_example = Ask_Save_As t'
          \<and> last (sm_samples t') ! (4 * 5 + 4) = 1)"
proof -
  have ag: "any2 (gm_state gm_example)" by (simp add: any2_def any1_def gm_example_def)
  have as: "any2 (sm_state sm_example)" by (simp add: any2_def any1_def sm_example_def)
  have n0: "(0::nat) < 8" and n4: "(4::nat) < 5" by simp_all
  have gv: "gm_state gm_example ! 0 ! 0 = 1" by (simp add: gm_example_def)
  have sv: "sint (sm_state sm_example ! 4 ! 4) = 1" by (simp add: sm_example_def)
  from flatten_row_major [OF shape_gm_example ag n0 n0 shape_sm_example as n4 n4]
  show ?thesis using ag as shape_gm_example shape_sm_example unfolding gv sv by simp
qed

section \<open>Export to a table\<close>

lemma set_str_nat: "set (str_nat n) \<subseteq> set ''0123456789''"
proof (induction n rule: str_nat.induct)
  case (1 n)
  have d: "''0123456789'' ! k \<in> set ''0123456789''" if "k < 10" for k
    using that by (intro nth_mem) simp
  show ?case
  proof (cases "n < 10")
    case True
    then show ?thesis using d [of n] by (subst str_nat.simps) simp
  next
    case False
    then show ?thesis using 1 d [of "n mod 10"] by (subst str_nat.simps) simp
  qed
qed

lemma newline_notin_fmt_d: "CHR 0x0A \<notin> set (fmt_d i)"
  using set_str_nat [of "nat i"] set_str_nat [of "nat (- i)"] by (auto simp: fmt_d_def)

lemma newline_notin_join:
  "\<forall>w \<in> set ws. CHR 0x0A \<notin> set w \<Longrightarrow> CHR 0x0A \<notin> set (join '','' ws)"
  by (induction "'',''" ws rule: join.induct) auto

lemma newline_notin_csv_line: "CHR 0x0A \<notin> set (csv_line row)"
  by (simp add: csv_line_def newline_notin_join newline_notin_fmt_d)

lemma newlines_savetxt_text:
  "length (filter (\<lambda>ch. ch = CHR 0x0A) (savetxt_text mat)) = length mat"
proof (induction mat)
  case Nil
  then show ?case by (simp add: savetxt_text_def)
next
  case (Cons row mat)
  have "filter (\<lambda>ch. ch = CHR 0x0A) (csv_line row) = []"
    using newline_notin_csv_line [of row] by (auto simp: filter_empty_conv)
  with Cons show ?case by (simp add: savetxt_text_def)
qed

lemma fmt_d_bit: "fmt_d 0 = ''0''" "fmt_d 1 = ''1''"
  by (simp_all add: fmt_d_def str_nat.simps)

lemma gm_save_all_write_ok:
  assumes "list_all (\<lambda>v. length v = n) (gm_samples s)" and "gm_samples s \<noteq> []"
    and "fname \<noteq> []"
  shows "gm_save_all_write fname None s =
           \<lparr>app = s\<lparr>gm_samples := []\<rparr>,
            shown = [ShowInfo (Drawings_Saved (length (gm_samples s)) fname)],
            written = [(fname, Text (savetxt_text (map (map uint) (gm_samples s))))],
            raised = None\<rparr>"
  using assms not_ragged_uniform [OF assms(1)]
  by (simp add: gm_save_all_write_def vstack_def write_file_def)

lemma gm_save_all_write_fails:
  assumes "list_all (\<lambda>v. length v = n) (gm_samples s)" and "gm_samples s \<noteq> []"
    and "fname \<noteq> []"
  shows "gm_save_all_write fname (Some exc) s =
           \<lparr>app = s, shown = [ShowError (Could_Not_Save exc)], written = [], raised = None\<rparr>"
  using assms not_ragged_uniform [OF assms(1)]
  by (simp add: gm_save_all_write_def vstack_def write_file_def quiet_def)

lemma sm_save_all_write_ok:
  assumes "list_all (\<lambda>v. length v = n) (sm_samples t)" and "path \<noteq> []"
  shows "sm_save_all_write path None t =
           \<lparr>app = t, shown = [ShowInfo (Data_Saved path)],
            written = [(path, Text (savetxt_text (sm_samples t)))], raised = None\<rparr>"
  using assms not_ragged_uniform [OF assms(1)]
  by (simp add: sm_save_all_write_def np_array_def write_file_def quiet_def)

lemma sm_save_all_write_fails:
  assumes "list_all (\<lambda>v. length v = n) (sm_samples t)" and "path \<noteq> []"
  shows "sm_save_all_write path (Some exc) t =
           \<lparr>app = t, shown = [], written = [], raised = Some exc\<rparr>"
  using assms not_ragged_uniform [OF assms(1)]
  by (simp add: sm_save_all_write_def np_array_def write_file_def quiet_def)

lemma gm_rows_uniform:
  assumes "shape 8 (gm_state s)" and "list_all (\<lambda>v. length v = 8 * 8) (gm_samples s)"
  shows "list_all (\<lambda>v. length v = 8 * 8) (gm_samples s @ [flatten (gm_state s)])"
  using assms(2) length_flatten [OF assms(1)] by simp

lemma sm_rows_uniform:
  assumes "shape 5 (sm_state t)" and "list_all (\<lambda>v. length v = 5 * 5 + 1) (sm_samples t)"
  shows "list_all (\<lambda>v. length v = 5 * 5 + 1)
           (sm_samples t @ [map sint (flatten (sm_state t)) @ [sm_shape_var t]])"
  using assms(2) length_flatten [OF assms(1)] by simp

lemma gm_save_all_drawn_ok:
  assumes "shape 8 (gm_state s)" and "any2 (gm_state s)"
    and "list_all (\<lambda>v. length v = 8 * 8) (gm_samples s)" and "fname \<noteq> []"
  shows "gm_save_all fname None s =
           \<lparr>app = s\<lparr>gm_samples := []\<rparr>,
            shown = [ShowInfo (Drawings_Saved (Suc (length (gm_samples s))) fname)],
            written = [(fname, Text (savetxt_text
                         (map (map uint) (gm_samples s @ [flatten (gm_state s)]))))],
            raised = None\<rparr>"
proof -
  let ?s' = "s\<lparr>gm_samples := gm_samples s @ [flatten (gm_state s)]\<rparr>"
  have u: "list_all (\<lambda>v. length v = 8 * 8) (gm_samples ?s')"
    using gm_rows_uniform [OF assms(1,3)] by simp
  have "gm_save_all fname None s = gm_save_all_write fname None ?s'"
    by (simp add: gm_save_all_def gm_save_all_prepare_drawn [OF assms(2)])
  also have "\<dots> = \<lparr>app = ?s'\<lparr>gm_samples := []\<rparr>,
            shown = [ShowInfo (Drawings_Saved (length (gm_samples ?s')) fname)],
            written = [(fname, Text (savetxt_text (map (map uint) (gm_samples ?s'))))],
            raised = None\<rparr>"
    by (rule gm_save_all_write_ok [OF u _ assms(4)]) simp
  finally show ?thesis by simp
qed

lemma sm_save_all_drawn_ok:
  assumes "shape 5 (sm_state t)" and "any2 (sm_state t)"
    and "list_all (\<lambda>v. length v = 5 * 5 + 1) (sm_samples t)" and "path \<noteq> []"
  shows "sm_save_all path None t =
           \<lparr>app = t\<lparr>sm_samples :=
                    sm_samples t @ [map sint (flatten (sm_state t)) @ [sm_shape_var t]]\<rparr>,
            shown = [ShowInfo (Data_Saved path)],
            written = [(path, Text (savetxt_text
                  (sm_samples t @ [map sint (flatten (sm_state t)) @ [sm_shape_var t]])))],
            raised = None\<rparr>"
proof -
  let ?t' = "t\<lparr>sm_samples :=
                sm_samples t @ [map sint (flatten (sm_state t)) @ [sm_shape_var t]]\<rparr>"
  have u: "list_all (\<lambda>v. length v = 5 * 5 + 1) (sm_samples ?t')"
    using sm_rows_uniform [OF assms(1,3)] by simp
  have "sm_save_all path None t = sm_save_all_write path None ?t'"
    by (simp add: sm_save_all_def sm_save_all_prepare_drawn [OF assms(2)])
  also have "\<dots> = \<lparr>app = ?t', shown = [ShowInfo (Data_Saved path)],
            written = [(path, Text (savetxt_text (sm_samples ?t')))], raised = None\<rparr>"
    by (rule sm_save_all_write_ok [OF u assms(4)])
  finally show ?thesis by simp
qed

lemma gm_save_all_nothing:
  "gm_samples s = [] \<Longrightarrow> \<not> any2 (gm_state s) \<Longrightarrow>
   gm_save_all fname io s =
     \<lparr>app = s, shown = [ShowWarning Nothing_To_Save], written = [], raised = None\<rparr>"
  by (simp add: gm_save_all_def gm_save_all_prepare_def quiet_def)

lemma sm_save_all_nothing:
  "sm_samples t = [] \<Longrightarrow> \<not> any2 (sm_state t) \<Longrightarrow>
   sm_save_all path io t =
     \<lparr>app = t, shown = [ShowWarning No_Samples], written = [], raised = None\<rparr>"
  by (simp add: sm_save_all_def sm_save_all_prepare_def quiet_def)

text \<open>
  Claim C2. With samples S1..Sk in the store, a grid that is not all zero, a file name
  chosen in the dialog and a write that succeeds, the table export writes one file whose
  text is the k + 1 lines of S1, .., Sk and then the flattened grid (followed by the label
  in the 5 x 5 tool), each line the decimal values joined by commas and ended by a
  newline. When the store is still empty after the current drawing has been taken in,
  the export warns, writes nothing and does not reach the dialog.
\<close>

theorem export_table_lines:
  assumes "shape 8 (gm_state s)" and "any2 (gm_state s)"
    and "list_all (\<lambda>v. length v = 8 * 8) (gm_samples s)" and "fname \<noteq> []"
    and "shape 5 (sm_state t)" and "any2 (sm_state t)"
    and "list_all (\<lambda>v. length v = 5 * 5 + 1) (sm_samples t)" and "path \<noteq> []"
  shows "(\<exists>txt. written (gm_save_all fname None s) = [(fname, Text txt)]
            \<and> txt = concat (map (\<lambda>v. csv_line (map uint v) @ [CHR 0x0A])
                              (gm_samples s @ [flatten (gm_state s)]))
            \<and> length (filter (\<lambda>ch. ch = CHR 0x0A) txt) = length (gm_samples s) + 1)
       \<and> (\<exists>txt. written (sm_save_all path None t) = [(path, Text txt)]
            \<and> txt = concat (map (\<lambda>v. csv_line v @ [CHR 0x0A])
                   (sm_samples t @ [map sint (flatten (sm_state t)) @ [sm_shape_var t]]))
            \<and> length (filter (\<lambda>ch. ch = CHR 0x0A) txt) = length (sm_samples t) + 1)
       \<and> ((if any2 (gm_state s0) then gm_samples s0 @ [flatten (gm_state s0)]
            else gm_samples s0) = [] \<longrightarrow>
            gm_save_all_prepare s0 = Done (gm_save_all f0 i0 s0)
          \<and> gm_save_all f0 i0 s0 =
              \<lparr>app = s0, shown = [ShowWarning Nothing_To_Save], written = [], raised = None\<rparr>)
       \<and> ((if any2 (sm_state t0)
            then sm_samples t0 @ [map sint (flatten (sm_state t0)) @ [sm_shape_var t0]]
            else sm_samples t0) = [] \<longrightarrow>
            sm_save_all_prepare t0 = Done (sm_save_all f0 i0 t0)
          \<and> sm_save_all f0 i0 t0 =
              \<lparr>app = t0, shown = [ShowWarning No_Samples], written = [], raised = None\<rparr>)"
proof (intro conjI impI)
  let ?g = "map (map uint) (gm_samples s @ [flatten (gm_state s)])"
  have "written (gm_save_all fname None s) = [(fname, Text (savetxt_text ?g))]"
    by (simp add: gm_save_all_drawn_ok [OF assms(1-4)])
  moreover have "savetxt_text ?g = concat (map (\<lambda>v. csv_line (map uint v) @ [CHR 0x0A])
                              (gm_samples s @ [flatten (gm_state s)]))"
    by (simp add: savetxt_text_def comp_def)
  moreover have "length (filter (\<lambda>ch. ch = CHR 0x0A) (savetxt_text ?g)) = length (gm_samples s) + 1"
    by (simp add: newlines_savetxt_text)
  ultimately show "\<exists>txt. written (gm_save_all fname None s) = [(fname, Text txt)]
            \<and> txt = concat (map (\<lambda>v. csv_line (map uint v) @ [CHR 0x0A])
                              (gm_samples s @ [flatten (gm_state s)]))
            \<and> length (filter (\<lambda>ch. ch = CHR 0x0A) txt) = length (gm_samples s) + 1"
    by metis
next
  let ?m = "sm_samples t @ [map sint (flatten (sm_state t)) @ [sm_shape_var t]]"
  have "written (sm_save_all path None t) = [(path, Text (savetxt_text ?m))]"
    by (simp add: sm_save_all_drawn_ok [OF assms(5-8)])
  moreover have "savetxt_text ?m = concat (map (\<lambda>v. csv_line v @ [CHR 0x0A]) ?m)"
    by (simp add: savetxt_text_def)
  moreover have "length (filter (\<lambda>ch. ch = CHR 0x0A) (savetxt_text ?m)) = length (sm_samples t) + 1"
    by (simp add: newlines_savetxt_text)
  ultimately show "\<exists>txt. written (sm_save_all path None t) = [(path, Text txt)]
            \<and> txt = concat (map (\<lambda>v. csv_line v @ [CHR 0x0A]) ?m)
            \<and> length (filter (\<lambda>ch. ch = CHR 0x0A) txt) = length (sm_samples t) + 1"
    by metis
next
  assume e: "(if any2 (gm_state s0) then gm_samples s0 @ [flatten (gm_state s0)]
            else gm_samples s0) = []"
  then have z: "gm_samples s0 = []" "\<not> any2 (gm_state s0)" by (auto split: if_splits)
  then show "gm_save_all_prepare s0 = Done (gm_save_all f0 i0 s0)"
    by (simp add: gm_save_all_nothing gm_save_all_prepare_def quiet_def)
  from z show "gm_save_all f0 i0 s0 =
              \<lparr>app = s0, shown = [ShowWarning Nothing_To_Save], written = [], raised = None\<rparr>"
    by (rule gm_save_all_nothing)
next
  assume e: "(if any2 (sm_state t0)
            then sm_samples t0 @ [map sint (flatten (sm_state t0)) @ [sm_shape_var t0]]
            else sm_samples t0) = []"
  then have z: "sm_samples t0 = []" "\<not> any2 (sm_state t0)" by (auto split: if_splits)
  then show "sm_save_all_prepare t0 = Done (sm_save_all f0 i0 t0)"
    by (simp add: sm_save_all_nothing sm_save_all_prepare_def quiet_def)
  from z show "sm_save_all f0 i0 t0 =
              \<lparr>app = t0, shown = [ShowWarning No_Samples], written = [], raised = None\<rparr>"
    by (rule sm_save_all_nothing)
qed

theorem export_table_lines_witness:
  "shape 8 (gm_state gm_stored) \<and> any2 (gm_state gm_stored)
   \<and> list_all (\<lambda>v. length v = 8 * 8) (gm_samples gm_stored) \<and> ''out.csv'' \<noteq> []
   \<and> shape 5 (sm_state sm_stored) \<and> any2 (sm_state sm_stored)
   \<and> list_all (\<lambda>v. length v = 5 * 5 + 1) (sm_samples sm_stored)
   \<and> written (gm_save_all ''out.csv'' None gm_stored) =
       [(''out.csv'', Text
         (concat (replicate 63 ''1,'') @ ''1'' @ [CHR 0x0A] @
          ''1,'' @ concat (replicate 62 ''0,'') @ ''0'' @ [CHR 0x0A]))]
   \<and> written (sm_save_all ''out.csv'' None sm_stored) =
       [(''out.csv'', Text
         (concat (replicate 25 ''1,'') @ ''0'' @ [CHR 0x0A] @
          concat (replicate 24 ''0,'') @ ''1,1'' @ [CHR 0x0A]))]
   \<and> gm_save_all ''out.csv'' None gm_init =
       \<lparr>app = gm_init, shown = [ShowWarning Nothing_To_Save], written = [], raised = None\<rparr>
   \<and> sm_save_all ''out.csv'' None sm_init =
       \<lparr>app = sm_init, shown = [ShowWarning No_Samples], written = [], raised = None\<rparr>"
proof -
  have h1: "shape 8 (gm_state gm_stored)" and h2: "any2 (gm_state gm_stored)"
    by (simp_all add: gm_stored_simps shape_gm_example any2_gm_example)
  have h3: "list_all (\<lambda>v. length v = 8 * 8) (gm_samples gm_stored)"
    by (simp add: gm_stored_simps)
  have h4: "''out.csv'' \<noteq> []" by simp
  have h5: "shape 5 (sm_state sm_stored)" and h6: "any2 (sm_state sm_stored)"
    by (simp_all add: sm_stored_simps shape_sm_example any2_sm_example)
  have h7: "list_all (\<lambda>v. length v = 5 * 5 + 1) (sm_samples sm_stored)"
    by (simp add: sm_stored_simps)
  have z1: "(if any2 (gm_state gm_init) then gm_samples gm_init @ [flatten (gm_state gm_init)]
            else gm_samples gm_init) = []"
    by (simp add: gm_init_def gm_GRID_SIZE_def any2_def any1_def list_ex_iff)
  have z2: "(if any2 (sm_state sm_init)
            then sm_samples sm_init @ [map sint (flatten (sm_state sm_init)) @ [sm_shape_var sm_init]]
            else sm_samples sm_init) = []"
    by (simp add: sm_init_def sm_GRID_SIZE_def any2_def any1_def list_ex_iff)
  have t1: "concat (map (\<lambda>v. csv_line (map uint v) @ [CHR 0x0A])
              (gm_samples gm_stored @ [flatten (gm_state gm_stored)])) =
         (concat (replicate 63 ''1,'') @ ''1'' @ [CHR 0x0A] @
          ''1,'' @ concat (replicate 62 ''0,'') @ ''0'' @ [CHR 0x0A])"
    by (simp add: gm_stored_simps gm_example_def flatten_def csv_line_def fmt_d_bit
          eval_nat_numeral)
  have t2: "concat (map (\<lambda>v. csv_line v @ [CHR 0x0A])
              (sm_samples sm_stored @
               [map sint (flatten (sm_state sm_stored)) @ [sm_shape_var sm_stored]])) =
         (concat (replicate 25 ''1,'') @ ''0'' @ [CHR 0x0A] @
          concat (replicate 24 ''0,'') @ ''1,1'' @ [CHR 0x0A])"
    by (simp add: sm_stored_simps sm_example_def flatten_def csv_line_def fmt_d_bit
          eval_nat_numeral)
  note w = export_table_lines [OF h1 h2 h3 h4 h5 h6 h7 h4,
      of gm_init "''out.csv''" None sm_init]
  from w z1 have 3: "gm_save_all ''out.csv'' None gm_init =
       \<lparr>app = gm_init, shown = [ShowWarning Nothing_To_Save], written = [], raised = None\<rparr>"
    by blast
  from w z2 have 4: "sm_save_all ''out.csv'' None sm_init =
       \<lparr>app = sm_init, shown = [ShowWarning No_Samples], written = [], raised = None\<rparr>"
    by blast
  from w have 1: "written (gm_save_all ''out.csv'' None gm_stored) =
       [(''out.csv'', Text (concat (map (\<lambda>v. csv_line (map uint v) @ [CHR 0x0A])
              (gm_samples gm_stored @ [flatten (gm_state gm_stored)]))))]"
    by blast
  from w have 2: "written (sm_save_all ''out.csv'' None sm_stored) =
       [(''out.csv'', Text (concat (map (\<lambda>v. csv_line v @ [CHR 0x0A])
              (sm_samples sm_stored @
               [map sint (flatten (sm_state sm_stored)) @ [sm_shape_var sm_stored]]))))]"
    by blast
  show ?thesis
    using h1 h2 h3 h5 h6 h7 1 2 3 4 unfolding t1 t2 by simp
qed

text \<open>
  Claim C6. When the table export starts on a grid that is not all zero, the flattened
  drawing is already in the sample store when the save dialog opens. If the user cancels
  the dialog, the handler returns without writing a file and without a message, the
  store keeps the added sample, and grid and label are as they were.
\<close>

theorem cancel_keeps_implicit_commit:
  assumes "any2 (gm_state s)" and "any2 (sm_state t)"
  shows "gm_save_all_prepare s =
           Ask_Save_As (s\<lparr>gm_samples := gm_samples s @ [flatten (gm_state s)]\<rparr>)
       \<and> gm_save_all [] io s =
           \<lparr>app = s\<lparr>gm_samples := gm_samples s @ [flatten (gm_state s)]\<rparr>,
            shown = [], written = [], raised = None\<rparr>
       \<and> sm_save_all_prepare t =
           Ask_Save_As (t\<lparr>sm_samples :=
             sm_samples t @ [map sint (flatten (sm_state t)) @ [sm_shape_var t]]\<rparr>)
       \<and> sm_save_all [] io t =
           \<lparr>app = t\<lparr>sm_samples :=
              sm_samples t @ [map sint (flatten (sm_state t)) @ [sm_shape_var t]]\<rparr>,
            shown = [], written = [], raised = None\<rparr>"
  by (simp add: gm_save_all_def sm_save_all_def gm_save_all_write_def sm_save_all_write_def
        gm_save_all_prepare_drawn [OF assms(1)] sm_save_all_prepare_drawn [OF assms(2)]
        quiet_def)

theorem cancel_keeps_implicit_commit_witness:
  "any2 (gm_state gm_example) \<and> any2 (sm_state sm_example)
   \<and> gm_samples gm_example = []
   \<and> gm_samples (app (gm_save_all [] None gm_example)) = [flatten (gm_state gm_example)]
   \<and> gm_state (app (gm_save_all [] None gm_example)) = gm_state gm_example
   \<and> written (gm_save_all [] None gm_example) = []
   \<and> sm_samples sm_example = []
   \<and> sm_samples (app (sm_save_all [] None sm_example)) =
       [replicate 24 0 @ [1, 1]]
   \<and> sm_state (app (sm_save_all [] None sm_example)) = sm_state sm_example
   \<and> written (sm_save_all [] None sm_example) = []"
proof -
  have fs: "map sint (flatten (sm_state sm_example)) @ [sm_shape_var sm_example] =
            replicate 24 0 @ [1, 1]"
    by (simp add: sm_example_def flatten_def eval_nat_numeral)
  have gs: "gm_samples gm_example = []" and ss: "sm_samples sm_example = []"
    by (simp_all add: gm_example_def sm_example_def)
  from cancel_keeps_implicit_commit [OF any2_gm_example any2_sm_example, of None]
  show ?thesis using any2_gm_example any2_sm_example fs gs ss by simp
qed

text \<open>
  Claim C10. Whenever the table export has written its file, the 8 x 8 tool returns with
  an empty sample store, and the 5 x 5 tool returns with the store that was written: the
  samples held before, followed by the current drawing if the grid was not all zero.
\<close>

theorem store_after_successful_export:
  "(written (gm_save_all fname io s) \<noteq> [] \<longrightarrow>
      gm_samples (app (gm_save_all fname io s)) = []
      \<and> gm_state (app (gm_save_all fname io s)) = gm_state s)
   \<and> (written (sm_save_all path io t) \<noteq> [] \<longrightarrow>
      sm_samples (app (sm_save_all path io t)) =
        (if any2 (sm_state t)
         then sm_samples t @ [map sint (flatten (sm_state t)) @ [sm_shape_var t]]
         else sm_samples t)
      \<and> sm_samples (app (sm_save_all path io t)) \<noteq> []
      \<and> written (sm_save_all path io t) =
          [(path, Text (savetxt_text (sm_samples (app (sm_save_all path io t)))))]
      \<and> sm_state (app (sm_save_all path io t)) = sm_state t
      \<and> sm_shape_var (app (sm_save_all path io t)) = sm_shape_var t)"
proof (intro conjI impI)
  assume w: "written (gm_save_all fname io s) \<noteq> []"
  then show "gm_samples (app (gm_save_all fname io s)) = []"
    by (auto simp: gm_save_all_def gm_save_all_prepare_def gm_save_all_write_def quiet_def
          split: if_splits sum.splits)
  from w show "gm_state (app (gm_save_all fname io s)) = gm_state s"
    by (auto simp: gm_save_all_def gm_save_all_prepare_def gm_save_all_write_def quiet_def
          split: if_splits sum.splits)
next
  assume w: "written (sm_save_all path io t) \<noteq> []"
  show "sm_samples (app (sm_save_all path io t)) =
        (if any2 (sm_state t)
         then sm_samples t @ [map sint (flatten (sm_state t)) @ [sm_shape_var t]]
         else sm_samples t)"
    by (auto simp: sm_save_all_def sm_save_all_prepare_def sm_save_all_write_def quiet_def
          Let_def split: if_splits sum.splits)
  from w show "sm_samples (app (sm_save_all path io t)) \<noteq> []"
    by (auto simp: sm_save_all_def sm_save_all_prepare_def sm_save_all_write_def quiet_def
          Let_def split: if_splits sum.splits)
  from w show "written (sm_save_all path io t) =
          [(path, Text (savetxt_text (sm_samples (app (sm_save_all path io t)))))]"
    by (auto simp: sm_save_all_def sm_save_all_prepare_def sm_save_all_write_def quiet_def
          np_array_def write_file_def Let_def split: if_splits sum.splits option.splits)
  show "sm_state (app (sm_save_all path io t)) = sm_state t"
    by (auto simp: sm_save_all_def sm_save_all_prepare_def sm_save_all_write_def quiet_def
          Let_def split: if_splits sum.splits)
  show "sm_shape_var (app (sm_save_all path io t)) = sm_shape_var t"
    by (auto simp: sm_save_all_def sm_save_all_prepare_def sm_save_all_write_def quiet_def
          Let_def split: if_splits sum.splits)
qed

theorem store_after_successful_export_witness:
  "written (gm_save_all ''out.csv'' None gm_stored) \<noteq> []
   \<and> written (sm_save_all ''out.csv'' None sm_stored) \<noteq> []
   \<and> gm_samples (app (gm_save_all ''out.csv'' None gm_stored)) = []
   \<and> sm_samples (app (sm_save_all ''out.csv'' None sm_stored)) =
       [replicate 25 1 @ [0],
        replicate 24 0 @ [1, 1]]"
proof -
  have h1: "shape 8 (gm_state gm_stored)" and h2: "any2 (gm_state gm_stored)"
    by (simp_all add: gm_stored_simps shape_gm_example any2_gm_example)
  have h3: "list_all (\<lambda>v. length v = 8 * 8) (gm_samples gm_stored)"
    by (simp add: gm_stored_simps)
  have h4: "''out.csv'' \<noteq> []" by simp
  have h5: "shape 5 (sm_state sm_stored)" and h6: "any2 (sm_state sm_stored)"
    by (simp_all add: sm_stored_simps shape_sm_example any2_sm_example)
  have h7: "list_all (\<lambda>v. length v = 5 * 5 + 1) (sm_samples sm_stored)"
    by (simp add: sm_stored_simps)
  have wg: "written (gm_save_all ''out.csv'' None gm_stored) \<noteq> []"
    by (simp add: gm_save_all_drawn_ok [OF h1 h2 h3 h4])
  have ws: "written (sm_save_all ''out.csv'' None sm_stored) \<noteq> []"
    by (simp add: sm_save_all_drawn_ok [OF h5 h6 h7 h4])
  have fs: "map sint (flatten (sm_state sm_example)) @ [1] =
            replicate 24 0 @ [1, 1]"
    by (simp add: sm_example_def flatten_def eval_nat_numeral)
  from store_after_successful_export
         [of "''out.csv''" None gm_stored "''out.csv''" sm_stored] wg ws
  have "gm_samples (app (gm_save_all ''out.csv'' None gm_stored)) = []"
    and "sm_samples (app (sm_save_all ''out.csv'' None sm_stored)) =
        (if any2 (sm_state sm_stored)
         then sm_samples sm_stored @ [map sint (flatten (sm_state sm_stored)) @ [sm_shape_var sm_stored]]
         else sm_samples sm_stored)"
    by blast+
  then show ?thesis using wg ws h6 by (simp add: sm_stored_simps fs)
qed

text \<open>
  Claim C3, as it holds. When the write of the table export raises, nothing is cleared:
  grid and label keep their values and the sample store is the one the dialog saw, that
  is the store from before the call followed, when the grid was not all zero, by the
  flattened current drawing. The state is the one from before the call only when the grid
  was all zero. The 8 x 8 tool reports the exception in an error box and writes nothing.
\<close>

theorem failed_write_keeps_store:
  assumes "list_all (\<lambda>v. length v = 8 * 8) (gm_samples s)" and "shape 8 (gm_state s)"
    and "gm_samples s \<noteq> [] \<or> any2 (gm_state s)" and "fname \<noteq> []"
    and "sm_samples t \<noteq> [] \<or> any2 (sm_state t)" and "path \<noteq> []"
  shows "gm_save_all fname (Some exc) s =
           \<lparr>app = s\<lparr>gm_samples := (if any2 (gm_state s)
                                     then gm_samples s @ [flatten (gm_state s)]
                                     else gm_samples s)\<rparr>,
            shown = [ShowError (Could_Not_Save exc)], written = [], raised = None\<rparr>
       \<and> (app (gm_save_all fname (Some exc) s) = s \<longleftrightarrow> \<not> any2 (gm_state s))
       \<and> app (sm_save_all path (Some exc) t) =
           t\<lparr>sm_samples := (if any2 (sm_state t)
                             then sm_samples t @ [map sint (flatten (sm_state t)) @ [sm_shape_var t]]
                             else sm_samples t)\<rparr>
       \<and> written (sm_save_all path (Some exc) t) = []
       \<and> (app (sm_save_all path (Some exc) t) = t \<longleftrightarrow> \<not> any2 (sm_state t))"
proof -
  let ?s' = "s\<lparr>gm_samples := (if any2 (gm_state s)
                                     then gm_samples s @ [flatten (gm_state s)]
                                     else gm_samples s)\<rparr>"
  have u: "list_all (\<lambda>v. length v = 8 * 8) (gm_samples ?s')"
    using gm_rows_uniform [OF assms(2,1)] assms(1) by simp
  have ne: "gm_samples ?s' \<noteq> []" using assms(3) by auto
  have "gm_save_all fname (Some exc) s = gm_save_all_write fname (Some exc) ?s'"
    using assms(3) by (auto simp: gm_save_all_def gm_save_all_prepare_def)
  then have g: "gm_save_all fname (Some exc) s =
      \<lparr>app = ?s', shown = [ShowError (Could_Not_Save exc)], written = [], raised = None\<rparr>"
    by (simp only: gm_save_all_write_fails [OF u ne assms(4)])
  have gi: "?s' = s \<longleftrightarrow> \<not> any2 (gm_state s)"
  proof (cases "any2 (gm_state s)")
    case True
    have "gm_samples ?s' \<noteq> gm_samples s" using True by simp
    then have "?s' \<noteq> s" by metis
    with True show ?thesis by simp
  next
    case False
    then show ?thesis by simp
  qed
  let ?t' = "t\<lparr>sm_samples := (if any2 (sm_state t)
                             then sm_samples t @ [map sint (flatten (sm_state t)) @ [sm_shape_var t]]
                             else sm_samples t)\<rparr>"
  have "sm_save_all path (Some exc) t = sm_save_all_write path (Some exc) ?t'"
    using assms(5) by (auto simp: sm_save_all_def sm_save_all_prepare_def Let_def)
  then have a: "app (sm_save_all path (Some exc) t) = ?t'"
    and w: "written (sm_save_all path (Some exc) t) = []"
    by (simp_all add: sm_save_all_write_def write_file_def quiet_def split: sum.splits)
  have si: "?t' = t \<longleftrightarrow> \<not> any2 (sm_state t)"
  proof (cases "any2 (sm_state t)")
    case True
    have "sm_samples ?t' \<noteq> sm_samples t" using True by simp
    then have "?t' \<noteq> t" by metis
    with True show ?thesis by simp
  next
    case False
    then show ?thesis by simp
  qed
  show ?thesis using g gi a w si by simp
qed

theorem failed_write_keeps_store_witness:
  "list_all (\<lambda>v. length v = 8 * 8) (gm_samples gm_stored) \<and> shape 8 (gm_state gm_stored)
   \<and> any2 (gm_state gm_stored) \<and> any2 (sm_state sm_stored) \<and> ''out.csv'' \<noteq> []
   \<and> gm_save_all ''out.csv'' (Some (OSError ''disk full'')) gm_stored =
       \<lparr>app = gm_stored\<lparr>gm_samples := [replicate 64 1, flatten (gm_state gm_example)]\<rparr>,
        shown = [ShowError (Could_Not_Save (OSError ''disk full''))],
        written = [], raised = None\<rparr>
   \<and> app (sm_save_all ''out.csv'' (Some (OSError ''disk full'')) sm_stored) =
       sm_stored\<lparr>sm_samples := [replicate 25 1 @ [0],
         replicate 24 0 @ [1, 1]]\<rparr>"
proof -
  have h1: "shape 8 (gm_state gm_stored)" and h2: "any2 (gm_state gm_stored)"
    by (simp_all add: gm_stored_simps shape_gm_example any2_gm_example)
  have h3: "list_all (\<lambda>v. length v = 8 * 8) (gm_samples gm_stored)"
    by (simp add: gm_stored_simps)
  have h4: "''out.csv'' \<noteq> []" by simp
  have h6: "any2 (sm_state sm_stored)"
    by (simp add: sm_stored_simps any2_sm_example)
  have fs: "map sint (flatten (sm_state sm_example)) @ [1] =
            replicate 24 0 @ [1, 1]"
    by (simp add: sm_example_def flatten_def eval_nat_numeral)
  from failed_write_keeps_store [OF h3 h1 disjI2 [OF h2] h4 disjI2 [OF h6] h4,
         of "OSError ''disk full''"]
  show ?thesis using h1 h2 h3 h6 by (simp add: fs gm_stored_simps sm_stored_simps)
qed

theorem failed_write_changes_store_counterexample:
  "app (gm_save_all ''out.csv'' (Some (OSError ''disk full'')) gm_example) \<noteq> gm_example
   \<and> app (sm_save_all ''out.csv'' (Some (OSError ''disk full'')) sm_example) \<noteq> sm_example
   \<and> gm_samples gm_example = []
   \<and> gm_samples (app (gm_save_all ''out.csv'' (Some (OSError ''disk full'')) gm_example)) =
       [flatten (gm_state gm_example)]
   \<and> sm_samples sm_example = []
   \<and> sm_samples (app (sm_save_all ''out.csv'' (Some (OSError ''disk full'')) sm_example)) =
       [replicate 24 0 @ [1, 1]]
   \<and> shown (sm_save_all ''out.csv'' (Some (OSError ''disk full'')) sm_example) = []"
  by (simp add: gm_save_all_def gm_save_all_prepare_def gm_save_all_write_def
        sm_save_all_def sm_save_all_prepare_def sm_save_all_write_def
        any2_gm_example any2_sm_example vstack_def np_array_def ragged_def write_file_def
        quiet_def Let_def)
     (simp add: gm_example_def sm_example_def flatten_def eval_nat_numeral)

section \<open>Export to an image\<close>

lemma centre_div: "(5 + 10 * y) div 500 = y div (50::nat)"
proof -
  have "(5 + 10 * y) div (10 * 50) = (5 + 10 * y) div 10 div 50"
    by (rule div_mult2_eq)
  moreover have "(5 + 10 * y) div 10 = y"
    by linarith
  ultimately show ?thesis by simp
qed

lemma img_width_shape: "shape n img \<Longrightarrow> 0 < n \<Longrightarrow> img_width img = n"
  by (cases img) (auto simp: shape_def img_width_def)

lemma shape_resize_nearest: "shape n (resize_nearest n n img)"
  by (simp add: shape_def resize_nearest_def list_all_iff)

lemma nth_resize_nearest:
  assumes "shape 5 img" and "y < 250" and "x < 250"
  shows "resize_nearest 250 250 img ! y ! x = img ! (y div 50) ! (x div 50)"
proof -
  have l: "length img = 5" using assms(1) by (simp add: shape_def)
  have w: "img_width img = 5" using assms(1) by (simp add: img_width_shape)
  show ?thesis
    using assms(2,3) by (simp add: resize_nearest_def l w centre_div)
qed

lemma gm_save_png_current_ok:
  "fname \<noteq> [] \<Longrightarrow>
   gm_save_png_current fname None s =
     \<lparr>app = s, shown = [ShowInfo (PNG_Saved fname)],
      written = [(fname, Raster (map (map (\<lambda>v. 255 * (1 - v))) (gm_state s)))],
      raised = None\<rparr>"
  by (simp add: gm_save_png_current_def write_file_def quiet_def)

lemma sm_save_png_current_ok:
  "any2 (sm_state t) \<Longrightarrow> path \<noteq> [] \<Longrightarrow>
   sm_save_png_current path None t =
     \<lparr>app = t, shown = [ShowInfo (Image_Saved path)],
      written = [(path, Raster (resize_nearest 250 250
                   (map (map (\<lambda>v. (ucast (v * 255) :: 8 word))) (sm_state t))))],
      raised = None\<rparr>"
  by (simp add: sm_save_png_current_def write_file_def quiet_def sm_GRID_SIZE_def
        CELL_SIZE_def Let_def)

lemma sm_save_png_current_blank:
  "\<not> any2 (sm_state t) \<Longrightarrow>
   sm_save_png_current path io t =
     \<lparr>app = t, shown = [ShowWarning Sample_Empty], written = [], raised = None\<rparr>"
  by (simp add: sm_save_png_current_def quiet_def)

text \<open>
  Claim C4, as it holds. The 5 x 5 tool refuses an all-zero grid with a warning and
  writes nothing; for any other grid of bits it writes a raster of 250 x 250 pixels, five
  times the cell size of 50, in which every cell is a block of 50 x 50 equal pixels, 255
  for a cell that is 1 and 0 for a cell that is 0. The 8 x 8 tool writes, for every grid
  of bits, a raster of 8 x 8 pixels, one per cell and not scaled, 0 for a cell that is 1
  and 255 for a cell that is 0.
\<close>

theorem export_image_raster:
  assumes "shape 8 (gm_state s)" and "bits (gm_state s)" and "fname \<noteq> []"
    and "shape 5 (sm_state t)" and "bits (sm_state t)" and "any2 (sm_state t)"
    and "path \<noteq> []"
  shows "(\<exists>img. written (gm_save_png_current fname None s) = [(fname, Raster img)]
            \<and> shape 8 img
            \<and> (\<forall>r<8. \<forall>c<8. img ! r ! c = (if gm_state s ! r ! c = 1 then 0 else 255)))
       \<and> (\<exists>img. written (sm_save_png_current path None t) = [(path, Raster img)]
            \<and> shape (5 * 50) img
            \<and> (\<forall>y<5 * 50. \<forall>x<5 * 50.
                  img ! y ! x = (if sm_state t ! (y div 50) ! (x div 50) = 1 then 255 else 0)))
       \<and> (\<not> any2 (sm_state t0) \<longrightarrow>
            sm_save_png_current p0 i0 t0 =
              \<lparr>app = t0, shown = [ShowWarning Sample_Empty], written = [], raised = None\<rparr>)"
proof (intro conjI impI)
  let ?img = "map (map (\<lambda>v. 255 * (1 - v))) (gm_state s)"
  have 1: "written (gm_save_png_current fname None s) = [(fname, Raster ?img)]"
    by (simp add: gm_save_png_current_ok [OF assms(3)])
  have 2: "shape 8 ?img" using assms(1) by (simp add: shape_map_map)
  have 3: "\<forall>r<8. \<forall>c<8. ?img ! r ! c = (if gm_state s ! r ! c = 1 then 0 else 255)"
  proof (intro allI impI)
    fix r c :: nat
    assume rc: "r < 8" "c < 8"
    have "gm_state s ! r ! c = 0 \<or> gm_state s ! r ! c = 1"
      using bits_cell [OF assms(1,2), of r c] rc by simp
    then show "?img ! r ! c = (if gm_state s ! r ! c = 1 then 0 else 255)"
      using rc by (auto simp: nth_map_map [OF assms(1)])
  qed
  from 1 2 3 show "\<exists>img. written (gm_save_png_current fname None s) = [(fname, Raster img)]
            \<and> shape 8 img
            \<and> (\<forall>r<8. \<forall>c<8. img ! r ! c = (if gm_state s ! r ! c = 1 then 0 else 255))"
    by blast
next
  let ?src = "map (map (\<lambda>v. (ucast (v * 255) :: 8 word))) (sm_state t)"
  let ?img = "resize_nearest 250 250 ?src"
  have sh: "shape 5 ?src" using assms(4) by (simp add: shape_map_map)
  have 1: "written (sm_save_png_current path None t) = [(path, Raster ?img)]"
    by (simp add: sm_save_png_current_ok [OF assms(6,7)])
  have 2: "shape (5 * 50) ?img" using shape_resize_nearest [of 250 ?src] by simp
  have 3: "\<forall>y<5 * 50. \<forall>x<5 * 50.
             ?img ! y ! x = (if sm_state t ! (y div 50) ! (x div 50) = 1 then 255 else 0)"
  proof (intro allI impI)
    fix y x :: nat
    assume yx: "y < 5 * 50" "x < 5 * 50"
    then have d: "y div 50 < 5" "x div 50 < 5" by simp_all
    have b: "sm_state t ! (y div 50) ! (x div 50) = 0 \<or> sm_state t ! (y div 50) ! (x div 50) = 1"
      using bits_cell [OF assms(4,5) d] .
    have "?img ! y ! x = ?src ! (y div 50) ! (x div 50)"
      using yx by (intro nth_resize_nearest [OF sh]) simp_all
    also have "\<dots> = ucast (sm_state t ! (y div 50) ! (x div 50) * 255)"
      by (rule nth_map_map [OF assms(4) d])
    also have "\<dots> = (if sm_state t ! (y div 50) ! (x div 50) = 1 then 255 else 0)"
      using b by auto
    finally show "?img ! y ! x = (if sm_state t ! (y div 50) ! (x div 50) = 1 then 255 else 0)" .
  qed
  from 1 2 3 show "\<exists>img. written (sm_save_png_current path None t) = [(path, Raster img)]
            \<and> shape (5 * 50) img
            \<and> (\<forall>y<5 * 50. \<forall>x<5 * 50.
                  img ! y ! x = (if sm_state t ! (y div 50) ! (x div 50) = 1 then 255 else 0))"
    by blast
next
  assume "\<not> any2 (sm_state t0)"
  then show "sm_save_png_current p0 i0 t0 =
              \<lparr>app = t0, shown = [ShowWarning Sample_Empty], written = [], raised = None\<rparr>"
    by (rule sm_save_png_current_blank)
qed

theorem export_image_raster_witness:
  "shape 8 (gm_state gm_example) \<and> bits (gm_state gm_example) \<and> ''drawing.png'' \<noteq> []
   \<and> shape 5 (sm_state sm_example) \<and> bits (sm_state sm_example)
   \<and> any2 (sm_state sm_example)
   \<and> (\<exists>img. written (gm_save_png_current ''drawing.png'' None gm_example) =
                [(''drawing.png'', Raster img)]
          \<and> shape 8 img \<and> img ! 0 ! 0 = 0 \<and> img ! 0 ! 1 = 255)
   \<and> (\<exists>img. written (sm_save_png_current ''drawing.png'' None sm_example) =
                [(''drawing.png'', Raster img)]
          \<and> shape (5 * 50) img \<and> img ! 249 ! 200 = 255 \<and> img ! 199 ! 249 = 0)"
proof -
  have h: "''drawing.png'' \<noteq> []" by simp
  note w = export_image_raster [OF shape_gm_example bits_gm_example h
      shape_sm_example bits_sm_example any2_sm_example h]
  have gv: "gm_state gm_example ! 0 ! 0 = 1" "gm_state gm_example ! 0 ! 1 = 0"
    by (simp_all add: gm_example_def)
  have sv: "sm_state sm_example ! 4 ! 4 = 1" "sm_state sm_example ! 3 ! 4 = 0"
    by (simp_all add: sm_example_def)
  from w obtain g where g1: "written (gm_save_png_current ''drawing.png'' None gm_example) =
                [(''drawing.png'', Raster g)]" and g2: "shape 8 g"
    and g3: "\<forall>r<8. \<forall>c<8. g ! r ! c = (if gm_state gm_example ! r ! c = 1 then 0 else 255)"
    by blast
  from g3 have g4: "g ! 0 ! 0 = 0 \<and> g ! 0 ! 1 = 255" using gv by simp
  from w obtain m where m1: "written (sm_save_png_current ''drawing.png'' None sm_example) =
                [(''drawing.png'', Raster m)]" and m2: "shape (5 * 50) m"
    and m3: "\<forall>y<5 * 50. \<forall>x<5 * 50.
               m ! y ! x = (if sm_state sm_example ! (y div 50) ! (x div 50) = 1 then 255 else 0)"
    by blast
  from m3 have "m ! 249 ! 200 =
      (if sm_state sm_example ! (249 div 50) ! (200 div 50) = 1 then 255 else 0)"
    by simp
  then have m4: "m ! 249 ! 200 = 255" using sv by simp
  from m3 have "m ! 199 ! 249 =
      (if sm_state sm_example ! (199 div 50) ! (249 div 50) = 1 then 255 else 0)"
    by simp
  then have m5: "m ! 199 ! 249 = 0" using sv by simp
  from g1 g2 g4 m1 m2 m4 m5 show ?thesis
    using shape_gm_example bits_gm_example shape_sm_example bits_sm_example
      any2_sm_example h by blast
qed

theorem export_image_unscaled_counterexample:
  "written (gm_save_png_current ''drawing.png'' None gm_example) =
     [(''drawing.png'',
       Raster [[0, 255, 255, 255, 255, 255, 255, 255],
               [255, 255, 255, 255, 255, 255, 255, 255],
               [255, 255, 255, 255, 255, 255, 255, 255],
               [255, 255, 255, 255, 255, 255, 255, 255],
               [255, 255, 255, 255, 255, 255, 255, 255],
               [255, 255, 255, 255, 255, 255, 255, 255],
               [255, 255, 255, 255, 255, 255, 255, 255],
               [255, 255, 255, 255, 255, 255, 255, 255]])]
   \<and> written (sm_save_png_current ''drawing.png'' None sm_init) = []"
  by (simp add: gm_save_png_current_def write_file_def quiet_def gm_example_def
        sm_save_png_current_def sm_init_def sm_GRID_SIZE_def any2_def any1_def list_ex_iff)

section \<open>Every state of a session is well formed\<close>

lemma gm_wf_init: "gm_wf gm_init"
  by (simp add: gm_wf_def gm_init_def gm_GRID_SIZE_def shape_def bits_def list_all_iff)

lemma sm_wf_init: "sm_wf sm_init"
  by (simp add: sm_wf_def sm_init_def sm_GRID_SIZE_def shape_def bits_def list_all_iff)

lemma gm_wf_update:
  "gm_wf s \<Longrightarrow> v = 0 \<or> v = 1 \<Longrightarrow>
   gm_wf (s\<lparr>gm_state := (gm_state s)[r := (gm_state s ! r)[c := v]]\<rparr>)"
  by (simp add: gm_wf_def shape_update bits_update)

lemma sm_wf_update:
  "sm_wf t \<Longrightarrow> v = 0 \<or> v = 1 \<Longrightarrow>
   sm_wf (t\<lparr>sm_state := (sm_state t)[r := (sm_state t ! r)[c := v]]\<rparr>)"
  by (simp add: sm_wf_def shape_update bits_update)

lemma gm_wf_pointer:
  assumes "gm_wf s"
  shows "gm_wf (returned (gm_toggle_cell e s) s)" and "gm_wf (returned (gm_paint_motion e s) s)"
    and "gm_wf (returned (gm_erase_cell e s) s)" and "gm_wf (returned (gm_erase_motion e s) s)"
proof -
  from assms have sh: "shape 8 (gm_state s)" and bi: "bits (gm_state s)"
    by (simp_all add: gm_wf_def)
  show "gm_wf (returned (gm_toggle_cell e s) s)"
  proof (cases "gm_coords_to_cell e")
    case None
    then show ?thesis using assms gm_outside [of e s] by (simp add: returned_def)
  next
    case (Some cell)
    obtain r c where co: "gm_coords_to_cell e = Some (r, c)" using Some by (cases cell) simp
    then have rc: "r < 8" "c < 8" by (auto dest: gm_cell_bounds)
    have "gm_state s ! r ! c = 0 \<or> gm_state s ! r ! c = 1"
      by (rule bits_cell [OF sh bi rc])
    then have "gm_state s ! r ! c XOR 1 = 0 \<or> gm_state s ! r ! c XOR 1 = 1" by auto
    then show ?thesis
      using gm_wf_update [OF assms] by (simp add: gm_toggle_cell_eq [OF sh co] returned_def)
  qed
  show "gm_wf (returned (gm_paint_motion e s) s)"
  proof (cases "gm_coords_to_cell e")
    case None
    then show ?thesis using assms gm_outside [of e s] by (simp add: returned_def)
  next
    case (Some cell)
    obtain r c where co: "gm_coords_to_cell e = Some (r, c)" using Some by (cases cell) simp
    show ?thesis
      using gm_wf_update [OF assms] by (simp add: gm_paint_motion_eq [OF sh bi co] returned_def)
  qed
  show e: "gm_wf (returned (gm_erase_cell e s) s)"
  proof (cases "gm_coords_to_cell e")
    case None
    then show ?thesis using assms gm_outside [of e s] by (simp add: returned_def)
  next
    case (Some cell)
    obtain r c where co: "gm_coords_to_cell e = Some (r, c)" using Some by (cases cell) simp
    show ?thesis
      using gm_wf_update [OF assms] by (simp add: gm_erase_cell_eq [OF sh co] returned_def)
  qed
  then show "gm_wf (returned (gm_erase_motion e s) s)"
    by (simp add: gm_erase_motion_def)
qed

lemma sm_wf_pointer:
  assumes "sm_wf t"
  shows "sm_wf (returned (sm_toggle_cell e t) t)" and "sm_wf (returned (sm_paint_motion e t) t)"
    and "sm_wf (returned (sm_erase_cell e t) t)" and "sm_wf (returned (sm_erase_motion e t) t)"
proof -
  from assms have sh: "shape 5 (sm_state t)" and bi: "bits (sm_state t)"
    by (simp_all add: sm_wf_def)
  show "sm_wf (returned (sm_toggle_cell e t) t)"
  proof (cases "sm_coords_to_cell e")
    case None
    then show ?thesis using assms sm_outside [of e t] by (simp add: returned_def)
  next
    case (Some cell)
    obtain r c where co: "sm_coords_to_cell e = Some (r, c)" using Some by (cases cell) simp
    then have rc: "r < 5" "c < 5" by (auto dest: sm_cell_bounds)
    have "sm_state t ! r ! c = 0 \<or> sm_state t ! r ! c = 1"
      by (rule bits_cell [OF sh bi rc])
    then have "1 - sm_state t ! r ! c = 0 \<or> 1 - sm_state t ! r ! c = 1" by auto
    then show ?thesis
      using sm_wf_update [OF assms] by (simp add: sm_toggle_cell_eq [OF sh co] returned_def)
  qed
  show "sm_wf (returned (sm_paint_motion e t) t)"
  proof (cases "sm_coords_to_cell e")
    case None
    then show ?thesis using assms sm_outside [of e t] by (simp add: returned_def)
  next
    case (Some cell)
    obtain r c where co: "sm_coords_to_cell e = Some (r, c)" using Some by (cases cell) simp
    show ?thesis
      using sm_wf_update [OF assms] by (simp add: sm_paint_motion_eq [OF sh co] returned_def)
  qed
  show e: "sm_wf (returned (sm_erase_cell e t) t)"
  proof (cases "sm_coords_to_cell e")
    case None
    then show ?thesis using assms sm_outside [of e t] by (simp add: returned_def)
  next
    case (Some cell)
    obtain r c where co: "sm_coords_to_cell e = Some (r, c)" using Some by (cases cell) simp
    show ?thesis
      using sm_wf_update [OF assms] by (simp add: sm_erase_cell_eq [OF sh co] returned_def)
  qed
  then show "sm_wf (returned (sm_erase_motion e t) t)"
    by (simp add: sm_erase_motion_is_erase_cell)
qed

lemma gm_wf_next: "gm_wf s \<Longrightarrow> gm_wf (app (gm_next s))"
  by (cases "any2 (gm_state s)")
     (simp_all add: gm_next_zero gm_next_drawn gm_wf_def shape_fill0 bits_fill0
        length_flatten [of 8])

lemma sm_wf_next: "sm_wf t \<Longrightarrow> sm_wf (app (sm_next t))"
  by (cases "any2 (sm_state t)")
     (simp_all add: sm_next_zero sm_next_drawn sm_wf_def shape_fill0 bits_fill0
        length_flatten [of 5])

lemma gm_wf_save_all: "gm_wf s \<Longrightarrow> gm_wf (app (gm_save_all fname io s))"
  by (auto simp: gm_wf_def gm_save_all_def gm_save_all_prepare_def gm_save_all_write_def
        quiet_def length_flatten [of 8] split: sum.splits)

lemma sm_wf_save_all: "sm_wf t \<Longrightarrow> sm_wf (app (sm_save_all path io t))"
  by (auto simp: sm_wf_def sm_save_all_def sm_save_all_prepare_def sm_save_all_write_def
        quiet_def length_flatten [of 5] Let_def split: sum.splits)

lemma gm_wf_save_png: "gm_wf s \<Longrightarrow> gm_wf (app (gm_save_png_current fname io s))"
  by (auto simp: gm_save_png_current_def quiet_def split: sum.splits)

lemma sm_wf_save_png: "sm_wf t \<Longrightarrow> sm_wf (app (sm_save_png_current path io t))"
  by (auto simp: sm_save_png_current_def quiet_def Let_def split: sum.splits)

lemma gm_wf_reset: "gm_wf s \<Longrightarrow> gm_wf (app (gm_reset b s))"
  by (simp add: gm_wf_def gm_reset_def shape_fill0 bits_fill0)

lemma sm_wf_reset: "sm_wf t \<Longrightarrow> sm_wf (app (sm_reset t))"
  by (simp add: sm_wf_def sm_reset_def quiet_def shape_fill0 bits_fill0)

lemma gm_wf_dispatch: "gm_wf s \<Longrightarrow> gm_wf (gm_dispatch a s)"
  by (cases a) (simp_all add: gm_wf_pointer gm_wf_next gm_wf_save_all gm_wf_save_png gm_wf_reset)

lemma sm_wf_dispatch: "sm_wf t \<Longrightarrow> sm_wf (sm_dispatch a t)"
proof (cases a)
  case SM_Circle
  assume "sm_wf t"
  with SM_Circle show ?thesis by (simp add: sm_wf_def)
next
  case SM_Cross
  assume "sm_wf t"
  with SM_Cross show ?thesis by (simp add: sm_wf_def)
qed (simp_all add: sm_wf_pointer sm_wf_next sm_wf_save_all sm_wf_save_png sm_wf_reset)

lemma gm_wf_foldl: "gm_wf s \<Longrightarrow> gm_wf (foldl (\<lambda>s a. gm_dispatch a s) s acts)"
  by (induction acts arbitrary: s) (simp_all add: gm_wf_dispatch)

lemma sm_wf_foldl: "sm_wf t \<Longrightarrow> sm_wf (foldl (\<lambda>s a. sm_dispatch a s) t acts)"
  by (induction acts arbitrary: t) (simp_all add: sm_wf_dispatch)

lemma gm_wf_session: "gm_wf (gm_session acts)"
  unfolding gm_session_def by (rule gm_wf_foldl [OF gm_wf_init])

lemma sm_wf_session: "sm_wf (sm_session acts)"
  unfolding sm_session_def by (rule sm_wf_foldl [OF sm_wf_init])

end
